theory Spec2Isabelle
  imports Main "HOL-Library.Multiset"
begin

section \<open>Announcement endpoints of the High School Management System API\<close>

text \<open>
  A shallow embedding of \<^verbatim>\<open>src/backend/routers/announcements.py\<close>.
  Exceptions are values of the type \<open>error\<close> on the left of a sum; the two module-level
  collections are fields of an explicit \<open>database\<close> state that the writing handlers
  return updated; the clock and the identifier generator are arguments.
\<close>

subsection \<open>Exceptions\<close>

text \<open>
  \<open>HTTPException status detail\<close> is the exception the handlers raise themselves.
  \<open>RequestValidationError\<close> is the answer (status 422) for a request body that does
  not satisfy the schema \<open>AnnouncementUpsert\<close>; \<open>KeyError\<close>, \<open>TypeError\<close> and \<open>AttributeError\<close> are the
  Python exceptions of a subscript on a missing key, a comparison or a subscript that
  involves \<open>None\<close>, and a method call on \<open>None\<close>.
\<close>

datatype error =
    HTTPException nat string
  | RequestValidationError
  | KeyError string
  | TypeError
  | AttributeError

text \<open>The error kinds of the specification, as the exceptions of the source.\<close>

definition MissingField :: "string \<Rightarrow> error" where
  "MissingField field_name = HTTPException 400 (field_name @ '' is required'')"

definition InvalidDate :: "string \<Rightarrow> error" where
  "InvalidDate field_name = HTTPException 400 (field_name @ '' must be a valid ISO date'')"

definition InvalidRange :: error where
  "InvalidRange = HTTPException 400 ''start_date must be before expiration_date''"

definition EmptyMessage :: error where
  "EmptyMessage = HTTPException 400 ''message must not be empty or contain only whitespace''"

definition Unauthorized :: error where
  "Unauthorized = HTTPException 401 ''Invalid teacher credentials''"

definition NotFound :: error where
  "NotFound = HTTPException 404 ''Announcement not found''"

subsection \<open>Timestamps\<close>

text \<open>
  A \<open>datetime\<close> object: the calendar fields and \<open>tzinfo\<close>, the offset from UTC in
  microseconds, \<open>None\<close> for a naive value.
\<close>

record datetime =
  year :: nat
  month :: nat
  day :: nat
  hour :: nat
  minute :: nat
  second :: nat
  microsecond :: nat
  tzinfo :: "int option"

definition is_leap :: "nat \<Rightarrow> bool" where
  "is_leap y \<longleftrightarrow> y mod 4 = 0 \<and> (y mod 100 \<noteq> 0 \<or> y mod 400 = 0)"

definition days_in_month :: "nat \<Rightarrow> nat \<Rightarrow> nat" where
  "days_in_month y m =
     (if m = 2 then (if is_leap y then 29 else 28)
      else if m = 4 \<or> m = 6 \<or> m = 9 \<or> m = 11 then 30 else 31)"

definition days_before_year :: "nat \<Rightarrow> int" where
  "days_before_year y =
     (let y1 = int y - 1 in y1 * 365 + y1 div 4 - y1 div 100 + y1 div 400)"

definition days_before_month :: "nat \<Rightarrow> nat \<Rightarrow> int" where
  "days_before_month y m = int (sum_list (map (days_in_month y) [1..<m]))"

definition ymd2ord :: "nat \<Rightarrow> nat \<Rightarrow> nat \<Rightarrow> int" where
  "ymd2ord y m d = days_before_year y + days_before_month y m + int d"

text \<open>The wall-clock reading of the fields in microseconds, and the UTC instant.\<close>

definition wall_micros :: "datetime \<Rightarrow> int" where
  "wall_micros d =
     (((ymd2ord (year d) (month d) (day d) * 24 + int (hour d)) * 60 + int (minute d)) * 60
        + int (second d)) * 1000000 + int (microsecond d)"

definition utc_micros :: "datetime \<Rightarrow> int" where
  "utc_micros d = wall_micros d - (case tzinfo d of None \<Rightarrow> 0 | Some off \<Rightarrow> off)"

text \<open>
  Ordering comparisons of \<open>datetime\<close>: two aware values compare by their UTC instants, two
  naive values by their fields, a naive with an aware value raises \<open>TypeError\<close>.
\<close>

definition dt_lt :: "datetime \<Rightarrow> datetime \<Rightarrow> error + bool" where
  "dt_lt a b =
     (if (tzinfo a = None) \<noteq> (tzinfo b = None) then Inl TypeError
      else Inr (utc_micros a < utc_micros b))"

definition dt_gt :: "datetime \<Rightarrow> datetime \<Rightarrow> error + bool" where
  "dt_gt a b = dt_lt b a"

definition dt_ge :: "datetime \<Rightarrow> datetime \<Rightarrow> error + bool" where
  "dt_ge a b =
     (if (tzinfo a = None) \<noteq> (tzinfo b = None) then Inl TypeError
      else Inr (utc_micros b \<le> utc_micros a))"

text \<open>
  The two methods of the standard library that the module calls and whose code is not part
  of it: \<open>datetime.fromisoformat\<close> (\<open>None\<close> when it raises \<open>ValueError\<close>) and
  \<open>datetime.isoformat\<close>. Every operation takes them as the argument \<open>L\<close>.
\<close>

record pylib =
  fromisoformat :: "string \<Rightarrow> datetime option"
  isoformat :: "datetime \<Rightarrow> string"

text \<open>\<open>datetime.now(timezone.utc)\<close>: the reading of the clock, aware, at offset zero.\<close>

definition datetime_now :: "datetime \<Rightarrow> datetime" where
  "datetime_now clock = clock\<lparr>tzinfo := Some 0\<rparr>"

subsection \<open>Strings\<close>

text \<open>\<open>s.replace(c, new)\<close> for a one-character pattern: every occurrence is replaced.\<close>

definition str_replace :: "string \<Rightarrow> char \<Rightarrow> string \<Rightarrow> string" where
  "str_replace s c new = concat (map (\<lambda>x. if x = c then new else [x]) s)"

text \<open>
  \<open>str.isspace\<close> on the code points below 256, and \<open>str.strip()\<close>, which removes
  the leading and the trailing whitespace.
\<close>

definition isspace :: "char \<Rightarrow> bool" where
  "isspace c \<longleftrightarrow>
     (let n = (of_char c :: nat)
      in (9 \<le> n \<and> n \<le> 13) \<or> (28 \<le> n \<and> n \<le> 32) \<or> n = 133 \<or> n = 160)"

definition strip :: "string \<Rightarrow> string" where
  "strip s = rev (dropWhile isspace (rev (dropWhile isspace s)))"

subsection \<open>Validation and parsing\<close>

text \<open>
  \<^verbatim>\<open>class AnnouncementUpsert(BaseModel)\<close>: the request body of create and update.
  \<open>expiration_date\<close> is a required string, \<open>start_date\<close> an optional one.
\<close>

record AnnouncementUpsert =
  message :: string
  expiration_date :: string
  start_date :: "string option"

text \<open>
  \<^verbatim>\<open>Field(..., min_length=1, max_length=500)\<close>: the constraint under which the
  payload object is built from the body, before the body of a handler runs.
\<close>

definition AnnouncementUpsert_validate :: "AnnouncementUpsert \<Rightarrow> error + unit" where
  "AnnouncementUpsert_validate payload =
     (if length (message payload) < 1 \<or> 500 < length (message payload)
      then Inl RequestValidationError else Inr ())"

definition parse_iso_date ::
  "pylib \<Rightarrow> string option \<Rightarrow> string \<Rightarrow> bool \<Rightarrow> error + datetime option" where
  "parse_iso_date L val field_name required =
     (case val of
        None \<Rightarrow>
          if required then Inl (HTTPException 400 (field_name @ '' is required''))
          else Inr None
      | Some v \<Rightarrow>
          (case fromisoformat L (str_replace v (CHR ''Z'') ''+00:00'') of
             None \<Rightarrow> Inl (HTTPException 400 (field_name @ '' must be a valid ISO date''))
           | Some parsed \<Rightarrow>
               Inr (Some (if tzinfo parsed = None then parsed\<lparr>tzinfo := Some 0\<rparr>
                          else parsed))))"

subsection \<open>Documents and the normalized record\<close>

text \<open>
  A stored document is a dictionary from field names to values that are a string or
  \<open>None\<close>. \<open>doc_get\<close> is \<^verbatim>\<open>doc.get(key)\<close>, which gives \<open>None\<close> for a missing key;
  \<open>doc_item\<close> is \<^verbatim>\<open>doc[key]\<close>, which raises \<open>KeyError\<close>.
\<close>

type_synonym doc = "string \<rightharpoonup> string option"

definition doc_get :: "doc \<Rightarrow> string \<Rightarrow> string option" where
  "doc_get d key = (case d key of None \<Rightarrow> None | Some v \<Rightarrow> v)"

definition doc_item :: "doc \<Rightarrow> string \<Rightarrow> error + string option" where
  "doc_item d key = (case d key of None \<Rightarrow> Inl (KeyError key) | Some v \<Rightarrow> Inr v)"

text \<open>The response of an operation: a dictionary literal, its keys in the order written.\<close>

type_synonym response = "(string \<times> string option) list"

definition serialize :: "doc \<Rightarrow> error + response" where
  "serialize d =
     (case doc_item d ''_id'' of
        Inl e \<Rightarrow> Inl e
      | Inr v_id \<Rightarrow>
     (case doc_item d ''message'' of
        Inl e \<Rightarrow> Inl e
      | Inr v_message \<Rightarrow>
     (case doc_item d ''expiration_date'' of
        Inl e \<Rightarrow> Inl e
      | Inr v_expiration \<Rightarrow>
          Inr [(''id'', v_id),
               (''message'', v_message),
               (''start_date'', doc_get d ''start_date''),
               (''expiration_date'', v_expiration),
               (''created_at'', doc_get d ''created_at'')])))"

subsection \<open>The document store and the credential store\<close>

record database =
  announcements_collection :: "doc list"
  teachers_collection :: "string set"

text \<open>
  Modelled from the spec: the module \<^verbatim>\<open>..database\<close> that provides the two collections
  is not among the sources. The specification gives the contract of the document store as
  find-all (sorted by \<open>created_at\<close>, descending, a record without \<open>created_at\<close> lowest),
  find-one (by id), insert (doc), update-fields (by id, fields) and delete (by id), which
  reports the number of records removed; and that of the credential store as
  exists (identity). The collection is the list of its documents in insertion order; an
  operation by id acts on the first document whose \<open>_id\<close> is the given string.
\<close>

definition has_id :: "string \<Rightarrow> doc \<Rightarrow> bool" where
  "has_id i d \<longleftrightarrow> d ''_id'' = Some (Some i)"

text \<open>Modelled from the spec: the sort key, \<open>None\<close> below every string.\<close>

fun str_less :: "string \<Rightarrow> string \<Rightarrow> bool" where
  "str_less [] [] = False"
| "str_less [] (y # ys) = True"
| "str_less (x # xs) [] = False"
| "str_less (x # xs) (y # ys) =
     ((of_char x :: nat) < of_char y \<or> (x = y \<and> str_less xs ys))"

definition key_less :: "string option \<Rightarrow> string option \<Rightarrow> bool" where
  "key_less a b =
     (case b of None \<Rightarrow> False
      | Some t \<Rightarrow> (case a of None \<Rightarrow> True | Some s \<Rightarrow> str_less s t))"

text \<open>Modelled from the spec: find-all, sorted by \<open>created_at\<close> descending.\<close>

fun insert_desc :: "doc \<Rightarrow> doc list \<Rightarrow> doc list" where
  "insert_desc d [] = [d]"
| "insert_desc d (x # xs) =
     (if key_less (doc_get x ''created_at'') (doc_get d ''created_at'')
      then d # x # xs else x # insert_desc d xs)"

definition find_sorted :: "doc list \<Rightarrow> doc list" where
  "find_sorted coll = foldr insert_desc coll []"

text \<open>Modelled from the spec: find-one by id.\<close>

definition find_one :: "string \<Rightarrow> doc list \<Rightarrow> doc option" where
  "find_one i coll = find (has_id i) coll"

text \<open>Modelled from the spec: insert.\<close>

definition insert_one :: "doc \<Rightarrow> doc list \<Rightarrow> doc list" where
  "insert_one d coll = coll @ [d]"

text \<open>Modelled from the spec: update-fields by id; the other fields stay.\<close>

fun update_one :: "string \<Rightarrow> doc \<Rightarrow> doc list \<Rightarrow> doc list" where
  "update_one i updates [] = []"
| "update_one i updates (d # ds) =
     (if has_id i d then (d ++ updates) # ds else d # update_one i updates ds)"

text \<open>Modelled from the spec: delete by id, with the number of records removed.\<close>

fun delete_one :: "string \<Rightarrow> doc list \<Rightarrow> nat \<times> doc list" where
  "delete_one i [] = (0, [])"
| "delete_one i (d # ds) =
     (if has_id i d then (1, ds)
      else (case delete_one i ds of (n, ds') \<Rightarrow> (n, d # ds')))"

text \<open>Modelled from the spec: the existence check of the credential store.\<close>

definition validate_teacher :: "database \<Rightarrow> string \<Rightarrow> error + unit" where
  "validate_teacher db teacher_username =
     (if teacher_username \<in> teachers_collection db then Inr ()
      else Inl (HTTPException 401 ''Invalid teacher credentials''))"

subsection \<open>The operations\<close>

text \<open>
  The loop of \<open>get_active_announcements\<close> over the documents, with the list \<open>active\<close>
  built so far. \<open>now\<close> is an argument: the handler reads the clock once, before the loop.
\<close>

fun active_loop ::
  "pylib \<Rightarrow> datetime \<Rightarrow> doc list \<Rightarrow> response list \<Rightarrow> error + response list" where
  "active_loop L now [] active = Inr active"
| "active_loop L now (d # docs) active =
     (case parse_iso_date L (doc_get d ''start_date'') ''start_date'' False of
        Inl e \<Rightarrow> Inl e
      | Inr start \<Rightarrow>
     (case parse_iso_date L (doc_get d ''expiration_date'') ''expiration_date'' True of
        Inl e \<Rightarrow> Inl e
      | Inr expiration \<Rightarrow>
     (case (case expiration of None \<Rightarrow> Inl TypeError | Some ex \<Rightarrow> dt_lt ex now) of
        Inl e \<Rightarrow> Inl e
      | Inr expired \<Rightarrow>
          if expired then active_loop L now docs active
          else
     (case (case start of None \<Rightarrow> Inr False | Some st \<Rightarrow> dt_gt st now) of
        Inl e \<Rightarrow> Inl e
      | Inr not_started \<Rightarrow>
          if not_started then active_loop L now docs active
          else
     (case serialize d of
        Inl e \<Rightarrow> Inl e
      | Inr r \<Rightarrow> active_loop L now docs (active @ [r]))))))"

definition get_active_announcements ::
  "pylib \<Rightarrow> datetime \<Rightarrow> database \<Rightarrow> error + response list" where
  "get_active_announcements L clock db =
     (let now = datetime_now clock;
          docs = find_sorted (announcements_collection db)
      in active_loop L now docs [])"

text \<open>The list comprehension of \<open>get_all_announcements\<close>.\<close>

fun serialize_all :: "doc list \<Rightarrow> error + response list" where
  "serialize_all [] = Inr []"
| "serialize_all (d # docs) =
     (case serialize d of
        Inl e \<Rightarrow> Inl e
      | Inr r \<Rightarrow> (case serialize_all docs of Inl e \<Rightarrow> Inl e | Inr rs \<Rightarrow> Inr (r # rs)))"

definition get_all_announcements :: "string \<Rightarrow> database \<Rightarrow> error + response list" where
  "get_all_announcements teacher_username db =
     (case validate_teacher db teacher_username of
        Inl e \<Rightarrow> Inl e
      | Inr u \<Rightarrow> serialize_all (find_sorted (announcements_collection db)))"

text \<open>
  Create and update make the same checks in the same order: the schema of the payload,
  the credential, (for update) the existence of the record, the two dates, the cross-field
  rule, the message. Nothing is written before the last of them has passed.
\<close>

definition create_announcement ::
  "pylib \<Rightarrow> string \<Rightarrow> datetime \<Rightarrow> AnnouncementUpsert \<Rightarrow> string \<Rightarrow> database
     \<Rightarrow> (error + response) \<times> database" where
  "create_announcement L uuid4 clock payload teacher_username db =
     (case AnnouncementUpsert_validate payload of
        Inl e \<Rightarrow> (Inl e, db)
      | Inr u \<Rightarrow>
     (case validate_teacher db teacher_username of
        Inl e \<Rightarrow> (Inl e, db)
      | Inr u \<Rightarrow>
     (case parse_iso_date L (start_date payload) ''start_date'' False of
        Inl e \<Rightarrow> (Inl e, db)
      | Inr start \<Rightarrow>
     (case parse_iso_date L (Some (expiration_date payload)) ''expiration_date'' True of
        Inl e \<Rightarrow> (Inl e, db)
      | Inr expiration \<Rightarrow>
     (case (case start of
              None \<Rightarrow> Inr False
            | Some st \<Rightarrow> (case expiration of None \<Rightarrow> Inl TypeError | Some ex \<Rightarrow> dt_ge st ex)) of
        Inl e \<Rightarrow> (Inl e, db)
      | Inr bad_range \<Rightarrow>
          if bad_range
          then (Inl (HTTPException 400 ''start_date must be before expiration_date''), db)
          else
            let msg = strip (message payload)
            in if msg = []
               then (Inl (HTTPException 400
                            ''message must not be empty or contain only whitespace''), db)
               else
                 (case expiration of
                    None \<Rightarrow> (Inl AttributeError, db)
                  | Some ex \<Rightarrow>
                      let d = [''_id'' \<mapsto> Some uuid4,
                               ''message'' \<mapsto> Some msg,
                               ''start_date'' \<mapsto>
                                  (case start of None \<Rightarrow> None
                                   | Some st \<Rightarrow> Some (isoformat L st)),
                               ''expiration_date'' \<mapsto> Some (isoformat L ex),
                               ''created_at'' \<mapsto>
                                  Some (isoformat L (datetime_now clock))];
                          db' = db\<lparr>announcements_collection :=
                                     insert_one d (announcements_collection db)\<rparr>
                      in (serialize d, db')))))))"

definition update_announcement ::
  "pylib \<Rightarrow> string \<Rightarrow> AnnouncementUpsert \<Rightarrow> string \<Rightarrow> database
     \<Rightarrow> (error + response) \<times> database" where
  "update_announcement L announcement_id payload teacher_username db =
     (case AnnouncementUpsert_validate payload of
        Inl e \<Rightarrow> (Inl e, db)
      | Inr u \<Rightarrow>
     (case validate_teacher db teacher_username of
        Inl e \<Rightarrow> (Inl e, db)
      | Inr u \<Rightarrow>
     (case find_one announcement_id (announcements_collection db) of
        None \<Rightarrow> (Inl (HTTPException 404 ''Announcement not found''), db)
      | Some existing \<Rightarrow>
     (case parse_iso_date L (start_date payload) ''start_date'' False of
        Inl e \<Rightarrow> (Inl e, db)
      | Inr start \<Rightarrow>
     (case parse_iso_date L (Some (expiration_date payload)) ''expiration_date'' True of
        Inl e \<Rightarrow> (Inl e, db)
      | Inr expiration \<Rightarrow>
     (case (case start of
              None \<Rightarrow> Inr False
            | Some st \<Rightarrow> (case expiration of None \<Rightarrow> Inl TypeError | Some ex \<Rightarrow> dt_ge st ex)) of
        Inl e \<Rightarrow> (Inl e, db)
      | Inr bad_range \<Rightarrow>
          if bad_range
          then (Inl (HTTPException 400 ''start_date must be before expiration_date''), db)
          else
            let msg = strip (message payload)
            in if msg = []
               then (Inl (HTTPException 400
                            ''message must not be empty or contain only whitespace''), db)
               else
                 (case expiration of
                    None \<Rightarrow> (Inl AttributeError, db)
                  | Some ex \<Rightarrow>
                      let updates = [''message'' \<mapsto> Some msg,
                                     ''start_date'' \<mapsto>
                                        (case start of None \<Rightarrow> None
                                         | Some st \<Rightarrow> Some (isoformat L st)),
                                     ''expiration_date'' \<mapsto> Some (isoformat L ex)];
                          db' = db\<lparr>announcements_collection :=
                                     update_one announcement_id updates
                                       (announcements_collection db)\<rparr>
                      in (case find_one announcement_id (announcements_collection db') of
                            None \<Rightarrow> (Inl TypeError, db')
                          | Some updated \<Rightarrow> (serialize updated, db')))))))))"

definition delete_announcement ::
  "string \<Rightarrow> string \<Rightarrow> database \<Rightarrow> (error + response) \<times> database" where
  "delete_announcement announcement_id teacher_username db =
     (case validate_teacher db teacher_username of
        Inl e \<Rightarrow> (Inl e, db)
      | Inr u \<Rightarrow>
          (case delete_one announcement_id (announcements_collection db) of
             (deleted_count, coll') \<Rightarrow>
               let db' = db\<lparr>announcements_collection := coll'\<rparr>
               in if deleted_count = 0
                  then (Inl (HTTPException 404 ''Announcement not found''), db')
                  else (Inr [(''message'', Some ''Announcement deleted'')], db')))"

subsection \<open>A library instance for running the operations\<close>

text \<open>
  The statements below hold for every library \<open>L\<close>. To run the operations on concrete
  requests, \<open>stdlib\<close> reads and prints the texts
  \<^verbatim>\<open>YYYY-MM-DD[*HH:MM[:SS[.ffffff]][+HH:MM]]\<close>, the part of ISO 8601 that every
  version of \<open>datetime.fromisoformat\<close> accepts and that \<open>datetime.isoformat\<close> prints.
\<close>

definition digit_val :: "char \<Rightarrow> nat option" where
  "digit_val c =
     (let n = (of_char c :: nat) in if 48 \<le> n \<and> n \<le> 57 then Some (n - 48) else None)"

fun number_acc :: "nat \<Rightarrow> string \<Rightarrow> nat option" where
  "number_acc a [] = Some a"
| "number_acc a (c # cs) =
     (case digit_val c of None \<Rightarrow> None | Some v \<Rightarrow> number_acc (10 * a + v) cs)"

definition number :: "string \<Rightarrow> nat option" where
  "number s = (if s = [] then None else number_acc 0 s)"

definition parse_ymd :: "string \<Rightarrow> (nat \<times> nat \<times> nat) option" where
  "parse_ymd s =
     (if length s \<noteq> 10 \<or> s ! 4 \<noteq> CHR ''-'' \<or> s ! 7 \<noteq> CHR ''-'' then None
      else
        (case (number (take 4 s), number (take 2 (drop 5 s)), number (drop 8 s)) of
           (Some y, Some m, Some d) \<Rightarrow>
             if 1 \<le> y \<and> 1 \<le> m \<and> m \<le> 12 \<and> 1 \<le> d \<and> d \<le> days_in_month y m
             then Some (y, m, d) else None
         | _ \<Rightarrow> None))"

definition parse_hms :: "string \<Rightarrow> (nat \<times> nat \<times> nat \<times> nat) option" where
  "parse_hms s =
     (let n = length s
      in if (n \<noteq> 5 \<and> n \<noteq> 8 \<and> n \<noteq> 15) \<or> s ! 2 \<noteq> CHR ''.'' \<and> s ! 2 \<noteq> CHR '':''
            \<or> s ! 2 = CHR ''.''
            \<or> (5 < n \<and> s ! 5 \<noteq> CHR '':'') \<or> (8 < n \<and> s ! 8 \<noteq> CHR ''.'')
         then None
         else
           (case (number (take 2 s), number (take 2 (drop 3 s)),
                  if 5 < n then number (take 2 (drop 6 s)) else Some 0,
                  if 8 < n then number (drop 9 s) else Some 0) of
              (Some h, Some mi, Some sec, Some us) \<Rightarrow>
                if h < 24 \<and> mi < 60 \<and> sec < 60 then Some (h, mi, sec, us) else None
            | _ \<Rightarrow> None))"

definition parse_offset :: "string \<Rightarrow> int option" where
  "parse_offset s =
     (if length s \<noteq> 6 \<or> (s ! 0 \<noteq> CHR ''+'' \<and> s ! 0 \<noteq> CHR ''-'') \<or> s ! 3 \<noteq> CHR '':''
      then None
      else
        (case (number (take 2 (drop 1 s)), number (drop 4 s)) of
           (Some h, Some mi) \<Rightarrow>
             if h < 24 \<and> mi < 60
             then Some ((if s ! 0 = CHR ''-'' then - 1 else 1)
                          * (int h * 3600 + int mi * 60) * 1000000)
             else None
         | _ \<Rightarrow> None))"

definition py_fromisoformat :: "string \<Rightarrow> datetime option" where
  "py_fromisoformat s =
     (case parse_ymd (take 10 s) of
        None \<Rightarrow> None
      | Some (y, m, d) \<Rightarrow>
          if length s = 10
          then Some \<lparr>year = y, month = m, day = d, hour = 0, minute = 0, second = 0,
                     microsecond = 0, tzinfo = None\<rparr>
          else
            let t = drop 11 s;
                is_sign = (\<lambda>c. c = CHR ''+'' \<or> c = CHR ''-'');
                hms = takeWhile (\<lambda>c. \<not> is_sign c) t;
                off = dropWhile (\<lambda>c. \<not> is_sign c) t
            in (case parse_hms hms of
                  None \<Rightarrow> None
                | Some (h, mi, sec, us) \<Rightarrow>
                    if off = []
                    then Some \<lparr>year = y, month = m, day = d, hour = h, minute = mi,
                               second = sec, microsecond = us, tzinfo = None\<rparr>
                    else
                      (case parse_offset off of
                         None \<Rightarrow> None
                       | Some z \<Rightarrow>
                           Some \<lparr>year = y, month = m, day = d, hour = h, minute = mi,
                                 second = sec, microsecond = us, tzinfo = Some z\<rparr>)))"

definition digit_char :: "nat \<Rightarrow> char" where
  "digit_char n = ''0123456789'' ! (n mod 10)"

definition pad2 :: "nat \<Rightarrow> string" where
  "pad2 n = [digit_char (n div 10), digit_char n]"

definition pad4 :: "nat \<Rightarrow> string" where
  "pad4 n = [digit_char (n div 1000), digit_char (n div 100), digit_char (n div 10),
             digit_char n]"

definition pad6 :: "nat \<Rightarrow> string" where
  "pad6 n = [digit_char (n div 100000), digit_char (n div 10000), digit_char (n div 1000),
             digit_char (n div 100), digit_char (n div 10), digit_char n]"

definition format_offset :: "int \<Rightarrow> string" where
  "format_offset z =
     (let a = nat \<bar>z\<bar>;
          hh = a div 3600000000;
          mm = (a div 60000000) mod 60;
          ss = (a div 1000000) mod 60;
          us = a mod 1000000
      in (if z < 0 then ''-'' else ''+'') @ pad2 hh @ '':'' @ pad2 mm
         @ (if ss \<noteq> 0 \<or> us \<noteq> 0 then '':'' @ pad2 ss else [])
         @ (if us \<noteq> 0 then ''.'' @ pad6 us else []))"

definition py_isoformat :: "datetime \<Rightarrow> string" where
  "py_isoformat d =
     pad4 (year d) @ ''-'' @ pad2 (month d) @ ''-'' @ pad2 (day d) @ ''T''
     @ pad2 (hour d) @ '':'' @ pad2 (minute d) @ '':'' @ pad2 (second d)
     @ (if microsecond d \<noteq> 0 then ''.'' @ pad6 (microsecond d) else [])
     @ (case tzinfo d of None \<Rightarrow> [] | Some z \<Rightarrow> format_offset z)"

definition stdlib :: pylib where
  "stdlib = \<lparr>fromisoformat = py_fromisoformat, isoformat = py_isoformat\<rparr>"

subsection \<open>Notions used in the statements\<close>

text \<open>
  The checks that create and update make on the payload after the credential (and, for
  update, the existence) check, with the three fields they produce on success. Both handlers
  contain these steps written out; \<open>create_announcement_checked\<close> and
  \<open>update_announcement_checked\<close> below show that they are these.
\<close>

definition checked_payload :: "pylib \<Rightarrow> AnnouncementUpsert \<Rightarrow> error + doc" where
  "checked_payload L payload =
     (case parse_iso_date L (start_date payload) ''start_date'' False of
        Inl e \<Rightarrow> Inl e
      | Inr start \<Rightarrow>
     (case parse_iso_date L (Some (expiration_date payload)) ''expiration_date'' True of
        Inl e \<Rightarrow> Inl e
      | Inr expiration \<Rightarrow>
     (case (case start of
              None \<Rightarrow> Inr False
            | Some st \<Rightarrow> (case expiration of None \<Rightarrow> Inl TypeError | Some ex \<Rightarrow> dt_ge st ex)) of
        Inl e \<Rightarrow> Inl e
      | Inr bad_range \<Rightarrow>
          if bad_range
          then Inl (HTTPException 400 ''start_date must be before expiration_date'')
          else
            let msg = strip (message payload)
            in if msg = []
               then Inl (HTTPException 400
                           ''message must not be empty or contain only whitespace'')
               else
                 (case expiration of
                    None \<Rightarrow> Inl AttributeError
                  | Some ex \<Rightarrow>
                      Inr [''message'' \<mapsto> Some msg,
                           ''start_date'' \<mapsto>
                              (case start of None \<Rightarrow> None
                               | Some st \<Rightarrow> Some (isoformat L st)),
                           ''expiration_date'' \<mapsto> Some (isoformat L ex)]))))"

text \<open>
  The specification's active announcement: the expiration date is present, parses and is
  not before \<open>now\<close>, and the start date is absent, or parses and is not after \<open>now\<close>.
\<close>

definition active_announcement :: "pylib \<Rightarrow> datetime \<Rightarrow> doc \<Rightarrow> bool" where
  "active_announcement L now d =
     (case parse_iso_date L (doc_get d ''expiration_date'') ''expiration_date'' True of
        Inr (Some ex) \<Rightarrow>
          utc_micros now \<le> utc_micros ex \<and>
          (case parse_iso_date L (doc_get d ''start_date'') ''start_date'' False of
             Inr None \<Rightarrow> True
           | Inr (Some st) \<Rightarrow> utc_micros st \<le> utc_micros now
           | Inl e \<Rightarrow> False)
      | Inr None \<Rightarrow> False
      | Inl e \<Rightarrow> False)"

text \<open>
  A stored date text that the parser reads (an absent one counts), and a record that has
  the three fields \<open>serialize\<close> reads by subscript.
\<close>

definition readable_date :: "pylib \<Rightarrow> string option \<Rightarrow> bool" where
  "readable_date L v =
     (case v of
        None \<Rightarrow> True
      | Some s \<Rightarrow> fromisoformat L (str_replace s (CHR ''Z'') ''+00:00'') \<noteq> None)"

definition has_fields :: "doc \<Rightarrow> bool" where
  "has_fields d \<longleftrightarrow>
     d ''_id'' \<noteq> None \<and> d ''message'' \<noteq> None \<and> d ''expiration_date'' \<noteq> None"

subsection \<open>Example data\<close>

text \<open>
  A reading of the clock (noon of 1 June 2025), an announcement that runs until 2099, one
  that ended in 2000, and a store with both and one teacher.
\<close>

definition clock_2025 :: datetime where
  "clock_2025 = \<lparr>year = 2025, month = 6, day = 1, hour = 12, minute = 0, second = 0,
                  microsecond = 0, tzinfo = None\<rparr>"

definition doc_exam :: doc where
  "doc_exam = [''_id'' \<mapsto> Some ''a1'',
               ''message'' \<mapsto> Some ''Exam tomorrow'',
               ''start_date'' \<mapsto> None,
               ''expiration_date'' \<mapsto> Some ''2099-01-01T00:00:00+00:00'',
               ''created_at'' \<mapsto> Some ''2025-05-02T08:00:00+00:00'']"

definition doc_past :: doc where
  "doc_past = [''_id'' \<mapsto> Some ''b2'',
               ''message'' \<mapsto> Some ''Past event'',
               ''start_date'' \<mapsto> None,
               ''expiration_date'' \<mapsto> Some ''2000-01-01T00:00:00+00:00'',
               ''created_at'' \<mapsto> Some ''2025-05-01T08:00:00+00:00'']"

definition school_db :: database where
  "school_db = \<lparr>announcements_collection = [doc_past, doc_exam],
                 teachers_collection = {''mrodriguez''}\<rparr>"

definition date_2030 :: datetime where
  "date_2030 = \<lparr>year = 2030, month = 1, day = 1, hour = 0, minute = 0, second = 0,
                 microsecond = 0, tzinfo = Some 0\<rparr>"

definition date_2031 :: datetime where
  "date_2031 = \<lparr>year = 2031, month = 1, day = 1, hour = 0, minute = 0, second = 0,
                 microsecond = 0, tzinfo = Some 0\<rparr>"

definition payload_equal_dates :: AnnouncementUpsert where
  "payload_equal_dates = \<lparr>message = ''Hello'', expiration_date = ''2030-01-01T00:00:00Z'',
                           start_date = Some ''2030-01-01T00:00:00Z''\<rparr>"

definition payload_window :: AnnouncementUpsert where
  "payload_window = \<lparr>message = ''Hello'', expiration_date = ''2031-01-01T00:00:00Z'',
                      start_date = Some ''2030-01-01T00:00:00Z''\<rparr>"

definition payload_blank :: AnnouncementUpsert where
  "payload_blank = \<lparr>message = ''   '', expiration_date = ''2030-01-01T00:00:00Z'',
                     start_date = None\<rparr>"

definition payload_moved :: AnnouncementUpsert where
  "payload_moved = \<lparr>message = ''  Moved  '', expiration_date = ''2030-01-01T00:00:00Z'',
                     start_date = None\<rparr>"

definition payload_blank_equal_dates :: AnnouncementUpsert where
  "payload_blank_equal_dates =
     \<lparr>message = ''   '', expiration_date = ''2030-01-01T00:00:00Z'',
      start_date = Some ''2030-01-01T00:00:00Z''\<rparr>"

definition payload_empty :: AnnouncementUpsert where
  "payload_empty = \<lparr>message = [], expiration_date = ''2030-01-01T00:00:00Z'',
                     start_date = None\<rparr>"

definition response_moved :: response where
  "response_moved = [(''id'', Some ''a1''), (''message'', Some ''Moved''),
                     (''start_date'', None),
                     (''expiration_date'', Some ''2030-01-01T00:00:00+00:00''),
                     (''created_at'', Some ''2025-05-02T08:00:00+00:00'')]"

section \<open>Properties\<close>

subsection \<open>The date parser\<close>

lemma str_replace_Z_suffix:
  "str_replace (t @ ''Z'') (CHR ''Z'') ''+00:00''
     = str_replace (t @ ''+00:00'') (CHR ''Z'') ''+00:00''"
  by (simp add: str_replace_def)

lemma parse_iso_date_aware:
  "parse_iso_date L v f r = Inr (Some d) \<Longrightarrow> tzinfo d \<noteq> None"
  by (auto simp: parse_iso_date_def split: option.splits if_splits)

lemma parse_iso_date_required:
  "parse_iso_date L v f True \<noteq> Inr None"
  by (auto simp: parse_iso_date_def split: option.splits if_splits)

lemma stdlib_sel:
  "fromisoformat stdlib = py_fromisoformat" "isoformat stdlib = py_isoformat"
  by (simp_all add: stdlib_def)

subsection \<open>The document store\<close>

lemma find_one_None: "find_one i coll = None \<longleftrightarrow> (\<forall>d\<in>set coll. \<not> has_id i d)"
  by (auto simp: find_one_def find_None_iff)

lemma find_one_Some: "find_one i coll = Some d \<Longrightarrow> has_id i d \<and> d \<in> set coll"
  by (auto simp: find_one_def find_Some_iff)

lemma find_one_split:
  "find_one i coll = Some d \<longleftrightarrow>
     (\<exists>pre post. coll = pre @ d # post \<and> has_id i d \<and> (\<forall>x\<in>set pre. \<not> has_id i x))"
proof (induction coll)
  case Nil
  then show ?case by (simp add: find_one_def)
next
  case (Cons a coll)
  show ?case
  proof (cases "has_id i a")
    case True
    have "(\<exists>pre post. a # coll = pre @ d # post \<and> has_id i d \<and> (\<forall>x\<in>set pre. \<not> has_id i x))
            \<longleftrightarrow> a = d"
      using True by (auto simp: Cons_eq_append_conv)
    with True show ?thesis by (auto simp: find_one_def)
  next
    case False
    have "(\<exists>pre post. a # coll = pre @ d # post \<and> has_id i d \<and> (\<forall>x\<in>set pre. \<not> has_id i x))
            \<longleftrightarrow> (\<exists>pre post. coll = pre @ d # post \<and> has_id i d \<and> (\<forall>x\<in>set pre. \<not> has_id i x))"
      (is "?L \<longleftrightarrow> ?R")
    proof
      assume ?L
      then obtain pre post where *: "a # coll = pre @ d # post" "has_id i d" "\<forall>x\<in>set pre. \<not> has_id i x"
        by blast
      with False obtain pre' where "pre = a # pre'" by (cases pre) auto
      with * show ?R by auto
    next
      assume ?R
      then obtain pre post where *: "coll = pre @ d # post" "has_id i d" "\<forall>x\<in>set pre. \<not> has_id i x"
        by blast
      with False show ?L by (intro exI [of _ "a # pre"] exI [of _ post]) auto
    qed
    with False Cons.IH show ?thesis by (simp add: find_one_def)
  qed
qed

lemma update_one_split:
  "(\<forall>x\<in>set pre. \<not> has_id i x) \<Longrightarrow> has_id i d \<Longrightarrow>
     update_one i upd (pre @ d # post) = pre @ (d ++ upd) # post"
  by (induction pre) auto

lemma update_one_miss:
  "(\<forall>x\<in>set coll. \<not> has_id i x) \<Longrightarrow> update_one i upd coll = coll"
  by (induction coll) auto

lemma delete_one_split:
  "(\<forall>x\<in>set pre. \<not> has_id i x) \<Longrightarrow> has_id i d \<Longrightarrow>
     delete_one i (pre @ d # post) = (1, pre @ post)"
  by (induction pre) auto

lemma delete_one_miss:
  "(\<forall>x\<in>set coll. \<not> has_id i x) \<Longrightarrow> delete_one i coll = (0, coll)"
  by (induction coll) auto

lemma delete_one_count:
  "fst (delete_one i coll) = 0 \<longleftrightarrow> (\<forall>x\<in>set coll. \<not> has_id i x)"
  by (induction coll) (auto split: prod.splits)

lemma has_id_update:
  "upd ''_id'' = None \<Longrightarrow> has_id i (d ++ upd) = has_id i d"
  by (simp add: has_id_def map_add_def)

lemma find_one_update_one:
  assumes "find_one i coll = Some d" and "upd ''_id'' = None"
  shows "find_one i (update_one i upd coll) = Some (d ++ upd)"
proof -
  from assms(1) obtain pre post where
    c: "coll = pre @ d # post" and h: "has_id i d" and p: "\<forall>x\<in>set pre. \<not> has_id i x"
    by (auto simp: find_one_split)
  have "update_one i upd coll = pre @ (d ++ upd) # post"
    using c h p by (simp add: update_one_split)
  moreover have "has_id i (d ++ upd)"
    using h assms(2) by (simp add: has_id_update)
  ultimately show ?thesis
    using p by (auto simp: find_one_split)
qed

subsection \<open>The checks of the payload\<close>

lemma serialize_Inr_iff:
  "(\<exists>r. serialize d = Inr r) \<longleftrightarrow> has_fields d"
  by (auto simp: serialize_def doc_item_def has_fields_def split: option.splits)

lemma dt_ge_aware:
  "tzinfo a \<noteq> None \<Longrightarrow> tzinfo b \<noteq> None \<Longrightarrow> dt_ge a b = Inr (utc_micros b \<le> utc_micros a)"
  by (simp add: dt_ge_def)

lemma dt_lt_aware:
  "tzinfo a \<noteq> None \<Longrightarrow> tzinfo b \<noteq> None \<Longrightarrow> dt_lt a b = Inr (utc_micros a < utc_micros b)"
  by (simp add: dt_lt_def)

lemma create_announcement_checked:
  "create_announcement L uuid clock payload teacher_username db =
     (case AnnouncementUpsert_validate payload of
        Inl e \<Rightarrow> (Inl e, db)
      | Inr u \<Rightarrow>
     (case validate_teacher db teacher_username of
        Inl e \<Rightarrow> (Inl e, db)
      | Inr u \<Rightarrow>
     (case checked_payload L payload of
        Inl e \<Rightarrow> (Inl e, db)
      | Inr flds \<Rightarrow>
          let d = flds(''_id'' \<mapsto> Some uuid,
                       ''created_at'' \<mapsto> Some (isoformat L (datetime_now clock)))
          in (serialize d,
              db\<lparr>announcements_collection :=
                    insert_one d (announcements_collection db)\<rparr>))))"
proof -
  have twist: "\<And>a b c e f :: string option.
     [''_id'' \<mapsto> a, ''message'' \<mapsto> b, ''start_date'' \<mapsto> c, ''expiration_date'' \<mapsto> e,
      ''created_at'' \<mapsto> f]
     = [''message'' \<mapsto> b, ''start_date'' \<mapsto> c, ''expiration_date'' \<mapsto> e,
        ''_id'' \<mapsto> a, ''created_at'' \<mapsto> f]"
    by (rule ext) simp
  show ?thesis
    unfolding create_announcement_def checked_payload_def Let_def twist
    by (simp split: sum.splits option.splits)
qed

lemma update_announcement_checked:
  "update_announcement L announcement_id payload teacher_username db =
     (case AnnouncementUpsert_validate payload of
        Inl e \<Rightarrow> (Inl e, db)
      | Inr u \<Rightarrow>
     (case validate_teacher db teacher_username of
        Inl e \<Rightarrow> (Inl e, db)
      | Inr u \<Rightarrow>
     (case find_one announcement_id (announcements_collection db) of
        None \<Rightarrow> (Inl (HTTPException 404 ''Announcement not found''), db)
      | Some existing \<Rightarrow>
     (case checked_payload L payload of
        Inl e \<Rightarrow> (Inl e, db)
      | Inr updates \<Rightarrow>
          let db' = db\<lparr>announcements_collection :=
                         update_one announcement_id updates (announcements_collection db)\<rparr>
          in (case find_one announcement_id (announcements_collection db') of
                None \<Rightarrow> (Inl TypeError, db')
              | Some updated \<Rightarrow> (serialize updated, db'))))))"
  unfolding update_announcement_def checked_payload_def Let_def
  by (simp split: sum.splits option.splits)


lemma strip_empty_iff: "strip s = [] \<longleftrightarrow> (\<forall>c\<in>set s. isspace c)"
proof
  assume "strip s = []"
  then have all: "\<forall>x\<in>set (dropWhile isspace s). isspace x"
    by (simp add: strip_def dropWhile_eq_Nil_conv)
  have "dropWhile isspace s = []"
  proof (rule ccontr)
    assume ne: "dropWhile isspace s \<noteq> []"
    then have "\<not> isspace (hd (dropWhile isspace s))" by (rule hd_dropWhile)
    moreover have "hd (dropWhile isspace s) \<in> set (dropWhile isspace s)"
      using ne by simp
    ultimately show False using all by blast
  qed
  then show "\<forall>c\<in>set s. isspace c" by (simp add: dropWhile_eq_Nil_conv)
next
  assume "\<forall>c\<in>set s. isspace c"
  then show "strip s = []"
    by (auto simp: strip_def dropWhile_eq_Nil_conv dest: set_dropWhileD)
qed

lemma checked_payload_fields:
  assumes "checked_payload L p = Inr flds"
  shows "flds ''_id'' = None" and "flds ''created_at'' = None"
    and "flds ''message'' = Some (Some (strip (message p)))"
    and "flds ''expiration_date'' \<noteq> None"
    and "flds ''start_date'' \<noteq> None"
    and "dom flds = {''message'', ''start_date'', ''expiration_date''}"
    and "strip (message p) \<noteq> []"
  using assms
  by (auto simp: checked_payload_def Let_def split: sum.splits option.splits if_splits)

lemma checked_payload_range:
  assumes "parse_iso_date L (start_date p) ''start_date'' False = Inr (Some st)"
    and "parse_iso_date L (Some (expiration_date p)) ''expiration_date'' True = Inr (Some ex)"
  shows "utc_micros ex \<le> utc_micros st \<Longrightarrow> checked_payload L p = Inl InvalidRange"
    and "utc_micros st < utc_micros ex \<Longrightarrow> checked_payload L p \<noteq> Inl InvalidRange"
proof -
  have ge: "dt_ge st ex = Inr (utc_micros ex \<le> utc_micros st)"
    using assms by (intro dt_ge_aware) (auto dest: parse_iso_date_aware)
  show "utc_micros ex \<le> utc_micros st \<Longrightarrow> checked_payload L p = Inl InvalidRange"
    using assms ge by (simp add: checked_payload_def InvalidRange_def)
  show "utc_micros st < utc_micros ex \<Longrightarrow> checked_payload L p \<noteq> Inl InvalidRange"
    using assms ge by (simp add: checked_payload_def InvalidRange_def Let_def)
qed

lemma checked_payload_blank:
  assumes "parse_iso_date L (start_date p) ''start_date'' False = Inr start"
    and "parse_iso_date L (Some (expiration_date p)) ''expiration_date'' True = Inr (Some ex)"
    and "\<forall>st. start = Some st \<longrightarrow> utc_micros st < utc_micros ex"
    and "\<forall>c\<in>set (message p). isspace c"
  shows "checked_payload L p = Inl EmptyMessage"
proof -
  have blank: "strip (message p) = []"
    using assms(4) by (simp add: strip_empty_iff)
  show ?thesis
  proof (cases start)
    case None
    with assms blank show ?thesis
      by (simp add: checked_payload_def EmptyMessage_def)
  next
    case (Some st)
    have "dt_ge st ex = Inr (utc_micros ex \<le> utc_micros st)"
      using assms Some by (intro dt_ge_aware) (auto dest: parse_iso_date_aware)
    with assms blank Some show ?thesis
      by (simp add: checked_payload_def EmptyMessage_def)
  qed
qed

lemma create_announcement_failure:
  "fst (create_announcement L uuid clock p t db) = Inl e \<Longrightarrow>
     snd (create_announcement L uuid clock p t db) = db"
  by (auto simp: create_announcement_checked Let_def serialize_def doc_item_def
      dest: checked_payload_fields split: sum.splits option.splits)

lemma update_announcement_success_path:
  assumes "find_one i (announcements_collection db) = Some existing"
    and "checked_payload L p = Inr upd"
  shows "find_one i (update_one i upd (announcements_collection db)) = Some (existing ++ upd)"
    and "\<exists>r. serialize (existing ++ upd) = Inr r"
proof -
  show "find_one i (update_one i upd (announcements_collection db)) = Some (existing ++ upd)"
    using assms(1) checked_payload_fields(1) [OF assms(2)] by (rule find_one_update_one)
  have "existing ''_id'' \<noteq> None"
    using find_one_Some [OF assms(1)] by (simp add: has_id_def)
  then have "has_fields (existing ++ upd)"
    using checked_payload_fields [OF assms(2)]
    by (auto simp: has_fields_def map_add_def split: option.splits)
  then show "\<exists>r. serialize (existing ++ upd) = Inr r"
    by (simp add: serialize_Inr_iff)
qed

lemma update_announcement_failure:
  assumes "fst (update_announcement L i p t db) = Inl e"
  shows "snd (update_announcement L i p t db) = db"
proof (cases "\<exists>existing upd. AnnouncementUpsert_validate p = Inr () \<and>
    validate_teacher db t = Inr () \<and>
    find_one i (announcements_collection db) = Some existing \<and> checked_payload L p = Inr upd")
  case True
  then obtain existing upd where
    *: "AnnouncementUpsert_validate p = Inr ()" "validate_teacher db t = Inr ()"
       "find_one i (announcements_collection db) = Some existing"
       "checked_payload L p = Inr upd"
    by blast
  from update_announcement_success_path [OF *(3,4)] * assms show ?thesis
    by (auto simp: update_announcement_checked)
next
  case False
  then show ?thesis
    by (auto simp: update_announcement_checked split: sum.splits option.splits)
qed

lemma validate_teacher_simps:
  "teacher_username \<in> teachers_collection db \<Longrightarrow> validate_teacher db teacher_username = Inr ()"
  "teacher_username \<notin> teachers_collection db \<Longrightarrow> validate_teacher db teacher_username = Inl Unauthorized"
  by (simp_all add: validate_teacher_def Unauthorized_def)

lemma parse_iso_date_error:
  "parse_iso_date L v f r = Inl e \<Longrightarrow> \<exists>detail. e = HTTPException 400 detail"
  by (auto simp: parse_iso_date_def split: option.splits if_splits)

lemma checked_payload_no_TypeError: "checked_payload L payload \<noteq> Inl TypeError"
proof
  assume a: "checked_payload L payload = Inl TypeError"
  show False
  proof (cases "parse_iso_date L (start_date payload) ''start_date'' False")
    case (Inl e)
    with a parse_iso_date_error [OF Inl] show False
      by (auto simp: checked_payload_def)
  next
    case start: (Inr start)
    show False
    proof (cases "parse_iso_date L (Some (expiration_date payload)) ''expiration_date'' True")
      case (Inl e)
      with a start parse_iso_date_error [OF Inl] show False
        by (auto simp: checked_payload_def)
    next
      case (Inr expiration)
      then obtain ex where ex: "expiration = Some ex"
        using parse_iso_date_required [of L "Some (expiration_date payload)" "''expiration_date''"]
        by (cases expiration) auto
      have aw: "tzinfo ex \<noteq> None"
        using Inr ex by (auto dest: parse_iso_date_aware)
      show False
      proof (cases start)
        case None
        with a start Inr ex show False
          by (auto simp: checked_payload_def Let_def split: if_splits)
      next
        case (Some st)
        have "tzinfo st \<noteq> None"
          using start Some by (auto dest: parse_iso_date_aware)
        then have "dt_ge st ex = Inr (utc_micros ex \<le> utc_micros st)"
          using aw by (simp add: dt_ge_aware)
        with a start Inr ex Some show False
          by (auto simp: checked_payload_def Let_def split: if_splits)
      qed
    qed
  qed
qed

lemma create_announcement_success_path:
  assumes "checked_payload L p = Inr flds"
  shows "\<exists>r. serialize (flds(''_id'' \<mapsto> Some i, ''created_at'' \<mapsto> Some c)) = Inr r"
proof -
  have "has_fields (flds(''_id'' \<mapsto> Some i, ''created_at'' \<mapsto> Some c))"
    using checked_payload_fields(3,4) [OF assms] by (simp add: has_fields_def)
  then show ?thesis by (simp add: serialize_Inr_iff)
qed

subsection \<open>Listing\<close>

lemma dt_gt_aware:
  "tzinfo a \<noteq> None \<Longrightarrow> tzinfo b \<noteq> None \<Longrightarrow> dt_gt a b = Inr (utc_micros b < utc_micros a)"
  by (simp add: dt_gt_def dt_lt_def)

lemma mset_insert_desc: "mset (insert_desc d xs) = add_mset d (mset xs)"
  by (induction xs) auto

lemma mset_find_sorted: "mset (find_sorted coll) = mset coll"
  by (induction coll) (auto simp: find_sorted_def mset_insert_desc)

lemma set_find_sorted: "set (find_sorted coll) = set coll"
  using mset_find_sorted [of coll] by (metis set_mset_mset)

lemma active_loop_Cons:
  assumes "tzinfo now \<noteq> None"
  shows "active_loop L now (d # docs) acc =
     (case parse_iso_date L (doc_get d ''start_date'') ''start_date'' False of
        Inl e \<Rightarrow> Inl e
      | Inr start \<Rightarrow>
     (case parse_iso_date L (doc_get d ''expiration_date'') ''expiration_date'' True of
        Inl e \<Rightarrow> Inl e
      | Inr expiration \<Rightarrow>
          if active_announcement L now d
          then (case serialize d of
                  Inl e \<Rightarrow> Inl e
                | Inr r \<Rightarrow> active_loop L now docs (acc @ [r]))
          else active_loop L now docs acc))"
proof (cases "parse_iso_date L (doc_get d ''start_date'') ''start_date'' False")
  case (Inl e)
  then show ?thesis by simp
next
  case start: (Inr start)
  show ?thesis
  proof (cases "parse_iso_date L (doc_get d ''expiration_date'') ''expiration_date'' True")
    case (Inl e)
    with start show ?thesis by simp
  next
    case (Inr expiration)
    then obtain ex where ex: "expiration = Some ex"
      using parse_iso_date_required [of L "doc_get d ''expiration_date''" "''expiration_date''"]
      by (cases expiration) auto
    have lt: "dt_lt ex now = Inr (utc_micros ex < utc_micros now)"
      using Inr ex assms by (intro dt_lt_aware) (auto dest: parse_iso_date_aware)
    show ?thesis
    proof (cases start)
      case None
      with start Inr ex lt show ?thesis
        by (auto simp: active_announcement_def)
    next
      case (Some st)
      have "dt_gt st now = Inr (utc_micros now < utc_micros st)"
        using start Some assms by (intro dt_gt_aware) (auto dest: parse_iso_date_aware)
      with start Inr ex lt Some show ?thesis
        by (auto simp: active_announcement_def)
    qed
  qed
qed

lemma active_loop_result:
  assumes "tzinfo now \<noteq> None"
  shows "active_loop L now docs acc = Inr res \<Longrightarrow>
     \<exists>rs. res = acc @ rs \<and>
          map Inr rs = map serialize (filter (active_announcement L now) docs)"
proof (induction docs arbitrary: acc)
  case Nil
  then show ?case by simp
next
  case (Cons d docs)
  show ?case
  proof (cases "active_announcement L now d")
    case True
    with Cons.prems obtain r where
      r: "serialize d = Inr r" and rest: "active_loop L now docs (acc @ [r]) = Inr res"
      by (auto simp: active_loop_Cons [OF assms] simp del: active_loop.simps split: sum.splits)
    from Cons.IH [OF rest] obtain rs where
      "res = (acc @ [r]) @ rs"
      "map Inr rs = map serialize (filter (active_announcement L now) docs)"
      by blast
    with r True show ?thesis
      by (intro exI [of _ "r # rs"]) simp
  next
    case False
    with Cons.prems have "active_loop L now docs acc = Inr res"
      by (auto simp: active_loop_Cons [OF assms] simp del: active_loop.simps split: sum.splits)
    from Cons.IH [OF this] False show ?thesis by simp
  qed
qed

lemma readable_date_parse:
  "readable_date L v \<Longrightarrow> \<exists>x. parse_iso_date L v f False = Inr x"
  by (auto simp: readable_date_def parse_iso_date_def split: option.splits)

lemma readable_date_parse_required:
  "readable_date L v \<Longrightarrow> v \<noteq> None \<Longrightarrow> \<exists>x. parse_iso_date L v f True = Inr x"
  by (auto simp: readable_date_def parse_iso_date_def split: option.splits)

lemma active_loop_total:
  assumes "tzinfo now \<noteq> None"
  shows "\<forall>d\<in>set docs. readable_date L (doc_get d ''start_date'') \<and>
           doc_get d ''expiration_date'' \<noteq> None \<and>
           readable_date L (doc_get d ''expiration_date'') \<and> has_fields d \<Longrightarrow>
         \<exists>res. active_loop L now docs acc = Inr res"
proof (induction docs arbitrary: acc)
  case Nil
  then show ?case by simp
next
  case (Cons d docs)
  from Cons.prems obtain s e r where
    "parse_iso_date L (doc_get d ''start_date'') ''start_date'' False = Inr s"
    "parse_iso_date L (doc_get d ''expiration_date'') ''expiration_date'' True = Inr e"
    "serialize d = Inr r"
    using readable_date_parse [of L "doc_get d ''start_date''" "''start_date''"]
      readable_date_parse_required [of L "doc_get d ''expiration_date''" "''expiration_date''"]
      serialize_Inr_iff [of d]
    by auto
  moreover have "\<exists>res. active_loop L now docs a = Inr res" for a
    using Cons.IH Cons.prems by simp
  ultimately show ?case
    by (simp add: active_loop_Cons [OF assms] del: active_loop.simps)
qed

lemma active_loop_missing_expiration:
  assumes "tzinfo now \<noteq> None"
  shows "d \<in> set docs \<Longrightarrow> doc_get d ''expiration_date'' = None \<Longrightarrow>
         \<exists>e. active_loop L now docs acc = Inl e"
proof (induction docs arbitrary: acc)
  case Nil
  then show ?case by simp
next
  case (Cons x docs)
  show ?case
  proof (cases "x = d")
    case True
    with Cons.prems(2) show ?thesis
      by (auto simp: parse_iso_date_def split: sum.splits)
  next
    case False
    with Cons.prems have "\<exists>e. active_loop L now docs a = Inl e" for a
      using Cons.IH by simp
    then show ?thesis
      by (auto simp: active_loop_Cons [OF assms] simp del: active_loop.simps split: sum.splits)
  qed
qed

lemma active_loop_missing_field:
  assumes "tzinfo now \<noteq> None"
  shows "\<exists>d\<in>set docs. doc_get d ''expiration_date'' = None \<Longrightarrow>
         \<forall>x\<in>set docs. readable_date L (doc_get x ''start_date'') \<and>
            readable_date L (doc_get x ''expiration_date'') \<and>
            x ''_id'' \<noteq> None \<and> x ''message'' \<noteq> None \<Longrightarrow>
         active_loop L now docs acc = Inl (MissingField ''expiration_date'')"
proof (induction docs arbitrary: acc)
  case Nil
  then show ?case by simp
next
  case (Cons x docs)
  from Cons.prems(2) obtain s where
    s: "parse_iso_date L (doc_get x ''start_date'') ''start_date'' False = Inr s"
    using readable_date_parse [of L "doc_get x ''start_date''" "''start_date''"] by auto
  show ?case
  proof (cases "doc_get x ''expiration_date''")
    case None
    with s show ?thesis
      by (simp add: parse_iso_date_def MissingField_def)
  next
    case (Some v)
    then have "x ''expiration_date'' \<noteq> None"
      by (auto simp: doc_get_def split: option.splits)
    with Cons.prems(2) have "has_fields x" by (simp add: has_fields_def)
    then obtain r where r: "serialize x = Inr r"
      using serialize_Inr_iff [of x] by auto
    from Some Cons.prems(2) obtain e where
      e: "parse_iso_date L (doc_get x ''expiration_date'') ''expiration_date'' True = Inr e"
      using readable_date_parse_required
        [of L "doc_get x ''expiration_date''" "''expiration_date''"] by auto
    have "active_loop L now docs a = Inl (MissingField ''expiration_date'')" for a
      using Cons.IH Cons.prems Some by auto
    with s e r show ?thesis
      by (simp add: active_loop_Cons [OF assms] del: active_loop.simps)
  qed
qed

lemma serialize_same_dates:
  assumes "serialize d = Inr r" and "serialize d' = Inr r"
  shows "active_announcement L now d = active_announcement L now d'"
proof -
  from assms have "doc_get d ''start_date'' = doc_get d' ''start_date''"
    "doc_get d ''expiration_date'' = doc_get d' ''expiration_date''"
    by (auto simp: serialize_def doc_item_def doc_get_def split: option.splits sum.splits)
  then show ?thesis
    by (simp add: active_announcement_def cong: sum.case_cong option.case_cong)
qed

lemma serialize_all_map: "serialize_all docs = Inr rs \<longleftrightarrow> map serialize docs = map Inr rs"
proof (induction docs arbitrary: rs)
  case Nil
  then show ?case by auto
next
  case (Cons d docs)
  show ?case
  proof (cases rs)
    case Nil
    then show ?thesis by (auto split: sum.splits)
  next
    case tl: (Cons r rs')
    have "serialize_all (d # docs) = Inr (r # rs')
            \<longleftrightarrow> serialize d = Inr r \<and> serialize_all docs = Inr rs'"
      by (auto split: sum.splits)
    then show ?thesis
      using Cons.IH [of rs'] by (simp add: tl)
  qed
qed

lemma serialize_all_total:
  "\<forall>d\<in>set docs. has_fields d \<Longrightarrow> \<exists>rs. serialize_all docs = Inr rs"
proof (induction docs)
  case Nil
  then show ?case by simp
next
  case (Cons d docs)
  then obtain r rs where "serialize d = Inr r" "serialize_all docs = Inr rs"
    using serialize_Inr_iff [of d] by auto
  then show ?case by simp
qed

subsection \<open>Evaluations on the example data\<close>

lemma parse_2030:
  "parse_iso_date stdlib (Some ''2030-01-01T00:00:00Z'') f r = Inr (Some date_2030)"
proof -
  have "py_fromisoformat ''2030-01-01T00:00:00+00:00'' = Some date_2030"
    unfolding date_2030_def by code_simp
  then show ?thesis
    by (simp add: parse_iso_date_def stdlib_sel str_replace_def date_2030_def)
qed

lemma parse_2031:
  "parse_iso_date stdlib (Some ''2031-01-01T00:00:00Z'') f r = Inr (Some date_2031)"
proof -
  have "py_fromisoformat ''2031-01-01T00:00:00+00:00'' = Some date_2031"
    unfolding date_2031_def by code_simp
  then show ?thesis
    by (simp add: parse_iso_date_def stdlib_sel str_replace_def date_2031_def)
qed

lemma parse_absent: "parse_iso_date L None f False = Inr None"
  by (simp add: parse_iso_date_def)

lemma utc_2030_2031: "utc_micros date_2030 < utc_micros date_2031"
  unfolding date_2030_def date_2031_def by code_simp

lemma iso_2030: "py_isoformat date_2030 = ''2030-01-01T00:00:00+00:00''"
  by (simp add: py_isoformat_def format_offset_def pad2_def pad4_def pad6_def digit_char_def
      date_2030_def)

lemma iso_now: "py_isoformat (datetime_now clock_2025) = ''2025-06-01T12:00:00+00:00''"
  by (simp add: py_isoformat_def format_offset_def pad2_def pad4_def pad6_def digit_char_def
      datetime_now_def clock_2025_def)

lemma strip_blank: "strip ''   '' = []"
  by code_simp

lemma strip_moved: "strip ''  Moved  '' = ''Moved''"
  by code_simp

lemma payloads_valid:
  "AnnouncementUpsert_validate payload_equal_dates = Inr ()"
  "AnnouncementUpsert_validate payload_window = Inr ()"
  "AnnouncementUpsert_validate payload_blank = Inr ()"
  "AnnouncementUpsert_validate payload_moved = Inr ()"
  by (simp_all add: AnnouncementUpsert_validate_def payload_equal_dates_def
      payload_window_def payload_blank_def payload_moved_def)

lemma teacher_known: "''mrodriguez'' \<in> teachers_collection school_db"
  "''visitor'' \<notin> teachers_collection school_db"
  by (simp_all add: school_db_def)

lemma find_exam: "find_one ''a1'' (announcements_collection school_db) = Some doc_exam"
  by (simp add: find_one_def school_db_def has_id_def doc_past_def doc_exam_def)

lemma find_missing: "find_one ''zz'' (announcements_collection school_db) = None"
  by (simp add: find_one_def school_db_def has_id_def doc_past_def doc_exam_def)

lemma checked_equal_dates: "checked_payload stdlib payload_equal_dates = Inl InvalidRange"
  by (simp add: checked_payload_def payload_equal_dates_def parse_2030 dt_ge_def
      InvalidRange_def date_2030_def)

lemma checked_blank: "checked_payload stdlib payload_blank = Inl EmptyMessage"
  by (simp add: checked_payload_def payload_blank_def parse_2030 parse_absent strip_blank
      EmptyMessage_def)

lemma checked_moved:
  "checked_payload stdlib payload_moved =
     Inr [''message'' \<mapsto> Some ''Moved'', ''start_date'' \<mapsto> None,
          ''expiration_date'' \<mapsto> Some ''2030-01-01T00:00:00+00:00'']"
  by (simp add: checked_payload_def payload_moved_def parse_2030 parse_absent strip_moved
      stdlib_sel iso_2030)

lemma parse_start_examples:
  "parse_iso_date stdlib (start_date payload_equal_dates) ''start_date'' False
     = Inr (Some date_2030)"
  "parse_iso_date stdlib (start_date payload_window) ''start_date'' False
     = Inr (Some date_2030)"
  "parse_iso_date stdlib (start_date payload_blank_equal_dates) ''start_date'' False
     = Inr (Some date_2030)"
  "parse_iso_date stdlib (start_date payload_blank) ''start_date'' False = Inr None"
  by (simp_all add: payload_equal_dates_def payload_window_def payload_blank_def
      payload_blank_equal_dates_def parse_2030 parse_absent)

lemma parse_expiration_examples:
  "parse_iso_date stdlib (Some (expiration_date payload_equal_dates)) ''expiration_date'' True
     = Inr (Some date_2030)"
  "parse_iso_date stdlib (Some (expiration_date payload_window)) ''expiration_date'' True
     = Inr (Some date_2031)"
  "parse_iso_date stdlib (Some (expiration_date payload_blank_equal_dates))
     ''expiration_date'' True = Inr (Some date_2030)"
  "parse_iso_date stdlib (Some (expiration_date payload_blank)) ''expiration_date'' True
     = Inr (Some date_2030)"
  by (simp_all add: payload_equal_dates_def payload_window_def payload_blank_def
      payload_blank_equal_dates_def parse_2030 parse_2031)

lemma error_kinds_differ:
  "Unauthorized \<noteq> InvalidRange" "NotFound \<noteq> InvalidRange" "InvalidRange \<noteq> EmptyMessage"
  "RequestValidationError \<noteq> EmptyMessage"
  "InvalidDate ''start_date'' \<noteq> MissingField ''expiration_date''"
  by (simp_all add: Unauthorized_def NotFound_def InvalidRange_def EmptyMessage_def
      InvalidDate_def MissingField_def)

lemma school_records:
  "announcements_collection school_db = [doc_past] @ doc_exam # []"
  "has_id ''a1'' doc_exam" "\<not> has_id ''a1'' doc_past"
  "\<not> has_id ''zz'' doc_exam" "\<not> has_id ''zz'' doc_past"
  by (simp_all add: school_db_def has_id_def doc_exam_def doc_past_def)

lemma payload_empty_invalid:
  "AnnouncementUpsert_validate payload_empty = Inl RequestValidationError"
  "AnnouncementUpsert_validate payload_blank_equal_dates = Inr ()"
  by (simp_all add: AnnouncementUpsert_validate_def payload_empty_def
      payload_blank_equal_dates_def)

lemma checked_blank_equal_dates:
  "checked_payload stdlib payload_blank_equal_dates = Inl InvalidRange"
  using checked_payload_range(1) [OF parse_start_examples(3) parse_expiration_examples(3)]
  by simp

lemma update_moved:
  "fst (update_announcement stdlib ''a1'' payload_moved ''mrodriguez'' school_db)
     = Inr response_moved"
proof -
  note sp = update_announcement_success_path [OF find_exam checked_moved]
  have "serialize (doc_exam ++ [''message'' \<mapsto> Some ''Moved'', ''start_date'' \<mapsto> None,
          ''expiration_date'' \<mapsto> Some ''2030-01-01T00:00:00+00:00'']) = Inr response_moved"
    by (simp add: serialize_def doc_item_def doc_get_def doc_exam_def response_moved_def)
  with sp(1) show ?thesis
    by (simp add: update_announcement_checked payloads_valid validate_teacher_simps
        teacher_known find_exam checked_moved)
qed

subsection \<open>The claims about the parser\<close>

text \<open>
  C5. The date parser, given an optional string, a field name and a required flag: an
  absent value gives the empty result when not required and the \<open>MissingField\<close> error
  naming the field when required; a text that ends in \<open>Z\<close> is read as the same text
  ending in \<open>+00:00\<close>; a text that parses to a value without offset gets the offset of
  UTC, one with an offset is returned as parsed; a text that does not parse gives the
  \<open>InvalidDate\<close> error naming the field.
\<close>

theorem parse_iso_date_contract:
  "parse_iso_date L None field_name False = Inr None \<and>
   parse_iso_date L None field_name True = Inl (MissingField field_name) \<and>
   parse_iso_date L (Some (t @ ''Z'')) field_name required
     = parse_iso_date L (Some (t @ ''+00:00'')) field_name required \<and>
   (\<forall>parsed. fromisoformat L (str_replace v (CHR ''Z'') ''+00:00'') = Some parsed \<longrightarrow>
      (tzinfo parsed = None \<longrightarrow>
         parse_iso_date L (Some v) field_name required
           = Inr (Some (parsed\<lparr>tzinfo := Some 0\<rparr>))) \<and>
      (tzinfo parsed \<noteq> None \<longrightarrow>
         parse_iso_date L (Some v) field_name required = Inr (Some parsed))) \<and>
   (fromisoformat L (str_replace w (CHR ''Z'') ''+00:00'') = None \<longrightarrow>
      parse_iso_date L (Some w) field_name required = Inl (InvalidDate field_name))"
  by (simp add: parse_iso_date_def MissingField_def InvalidDate_def str_replace_Z_suffix)

theorem parse_iso_date_contract_witness:
  "parse_iso_date stdlib (Some ''2099-01-01T00:00:00'') ''start_date'' False
     = Inr (Some \<lparr>year = 2099, month = 1, day = 1, hour = 0, minute = 0, second = 0,
               microsecond = 0, tzinfo = Some 0\<rparr>) \<and>
   parse_iso_date stdlib (Some ''2099-01-01T00:00:00-05:00'') ''start_date'' False
     = Inr (Some \<lparr>year = 2099, month = 1, day = 1, hour = 0, minute = 0, second = 0,
               microsecond = 0, tzinfo = Some (- 18000000000)\<rparr>) \<and>
   parse_iso_date stdlib (Some ''next week'') ''start_date'' False
     = Inl (InvalidDate ''start_date'')"
proof -
  have a: "fromisoformat stdlib (str_replace ''2099-01-01T00:00:00'' (CHR ''Z'') ''+00:00'')
      = Some \<lparr>year = 2099, month = 1, day = 1, hour = 0, minute = 0, second = 0,
               microsecond = 0, tzinfo = None\<rparr>"
    unfolding stdlib_sel by code_simp
  have b: "fromisoformat stdlib
             (str_replace ''2099-01-01T00:00:00-05:00'' (CHR ''Z'') ''+00:00'')
      = Some \<lparr>year = 2099, month = 1, day = 1, hour = 0, minute = 0, second = 0,
               microsecond = 0, tzinfo = Some (- 18000000000)\<rparr>"
    unfolding stdlib_sel by code_simp
  have c: "fromisoformat stdlib (str_replace ''next week'' (CHR ''Z'') ''+00:00'') = None"
    unfolding stdlib_sel by code_simp
  show ?thesis
    using parse_iso_date_contract
            [of stdlib "''start_date''" "[]" False "''2099-01-01T00:00:00''" "''next week''"]
          parse_iso_date_contract
            [of stdlib "''start_date''" "[]" False "''2099-01-01T00:00:00-05:00''"
                "''next week''"]
          a b c
    by simp
qed

subsection \<open>Listing and creation\<close>

lemma tzinfo_now: "tzinfo (datetime_now clock) \<noteq> None"
  by (simp add: datetime_now_def)

lemma get_active_announcements_result:
  assumes "get_active_announcements L clock db = Inr active"
  shows "map Inr active =
           map serialize (filter (active_announcement L (datetime_now clock))
                            (find_sorted (announcements_collection db)))"
  using active_loop_result [OF tzinfo_now, of L clock _ "[]" active] assms
  by (auto simp: get_active_announcements_def Let_def)

lemma get_all_announcements_map:
  "get_all_announcements t db = Inr rs \<longleftrightarrow>
     t \<in> teachers_collection db \<and>
     map serialize (find_sorted (announcements_collection db)) = map Inr rs"
  by (auto simp: get_all_announcements_def validate_teacher_def serialize_all_map)

lemma create_announcement_success:
  assumes "create_announcement L uuid clock payload t db = (Inr r, db')"
  shows "\<exists>d. serialize d = Inr r \<and> has_id uuid d \<and>
             d ''message'' = Some (Some (strip (message payload))) \<and>
             db' = db\<lparr>announcements_collection := announcements_collection db @ [d]\<rparr>"
proof -
  from assms obtain flds where f: "checked_payload L payload = Inr flds"
    by (auto simp: create_announcement_checked split: sum.splits)
  define d where
    "d = flds(''_id'' \<mapsto> Some uuid,
              ''created_at'' \<mapsto> Some (isoformat L (datetime_now clock)))"
  from assms f have "serialize d = Inr r"
    and "db' = db\<lparr>announcements_collection := announcements_collection db @ [d]\<rparr>"
    by (auto simp: create_announcement_checked Let_def insert_one_def d_def
        split: sum.splits)
  moreover have "has_id uuid d" by (simp add: has_id_def d_def)
  moreover have "d ''message'' = Some (Some (strip (message payload)))"
    using checked_payload_fields(3) [OF f] by (simp add: d_def)
  ultimately show ?thesis by blast
qed

lemma has_fields_create:
  assumes "\<forall>d\<in>set (announcements_collection db). has_fields d"
  shows "\<forall>d\<in>set (announcements_collection
                  (snd (create_announcement L uuid clock payload t db))). has_fields d"
proof (cases "fst (create_announcement L uuid clock payload t db)")
  case (Inl e)
  with assms create_announcement_failure [of L uuid clock payload t db e] show ?thesis
    by simp
next
  case (Inr r)
  then have "create_announcement L uuid clock payload t db
               = (Inr r, snd (create_announcement L uuid clock payload t db))"
    by (metis prod.collapse)
  from create_announcement_success [OF this] obtain d where
    "serialize d = Inr r"
    "snd (create_announcement L uuid clock payload t db)
       = db\<lparr>announcements_collection := announcements_collection db @ [d]\<rparr>"
    by blast
  with assms serialize_Inr_iff [of d] show ?thesis by auto
qed

lemma has_fields_delete_one:
  "\<forall>d\<in>set coll. has_fields d \<Longrightarrow> \<forall>d\<in>set (snd (delete_one i coll)). has_fields d"
  by (induction coll) (auto split: prod.splits)

lemma has_fields_delete:
  assumes "\<forall>d\<in>set (announcements_collection db). has_fields d"
  shows "\<forall>d\<in>set (announcements_collection (snd (delete_announcement i t db))). has_fields d"
  using assms has_fields_delete_one [of "announcements_collection db" i]
  by (auto simp: delete_announcement_def Let_def split: sum.splits prod.splits)

subsection \<open>The claims about the operations\<close>

text \<open>
  C1. When list-active returns, its result is the serialization of exactly the stored
  records that are active at \<open>now\<close>, in listing order: a stored record is included if and
  only if its parsed expiration date is not before \<open>now\<close> and its start date is absent or
  its parsed start date is not after \<open>now\<close>. \<open>now\<close> is the one reading
  \<open>datetime_now clock\<close> of the call, the same for every record. The call returns whenever
  every stored record has readable dates, an expiration date and the fields that are
  serialized.
\<close>

theorem list_active_filter:
  "(\<forall>active. get_active_announcements L clock db = Inr active \<longrightarrow>
      map Inr active =
        map serialize (filter (active_announcement L (datetime_now clock))
                         (find_sorted (announcements_collection db))) \<and>
      (\<forall>d\<in>set (announcements_collection db).
         serialize d \<in> Inr ` set active \<longleftrightarrow>
           active_announcement L (datetime_now clock) d)) \<and>
   ((\<forall>d\<in>set (announcements_collection db).
       readable_date L (doc_get d ''start_date'') \<and>
       doc_get d ''expiration_date'' \<noteq> None \<and>
       readable_date L (doc_get d ''expiration_date'') \<and> has_fields d) \<longrightarrow>
    (\<exists>active. get_active_announcements L clock db = Inr active))"
proof (intro conjI allI impI ballI)
  fix active
  assume a: "get_active_announcements L clock db = Inr active"
  let ?now = "datetime_now clock"
  let ?docs = "find_sorted (announcements_collection db)"
  show eq: "map Inr active = map serialize (filter (active_announcement L ?now) ?docs)"
    using a by (rule get_active_announcements_result)
  fix d
  assume d: "d \<in> set (announcements_collection db)"
  have img: "Inr ` set active = serialize ` {x \<in> set ?docs. active_announcement L ?now x}"
    using arg_cong [OF eq, of set] by simp
  show "serialize d \<in> Inr ` set active \<longleftrightarrow> active_announcement L ?now d"
  proof
    assume m: "serialize d \<in> Inr ` set active"
    then obtain r where r: "serialize d = Inr r" by auto
    from m obtain x where
      x: "x \<in> set ?docs" "active_announcement L ?now x" "serialize d = serialize x"
      unfolding img by auto
    from x(3) r have "serialize x = Inr r" by simp
    from serialize_same_dates [OF r this, of L ?now] x(2)
    show "active_announcement L ?now d" by simp
  next
    assume "active_announcement L ?now d"
    with d show "serialize d \<in> Inr ` set active"
      unfolding img by (auto simp: set_find_sorted)
  qed
next
  assume "\<forall>d\<in>set (announcements_collection db).
       readable_date L (doc_get d ''start_date'') \<and>
       doc_get d ''expiration_date'' \<noteq> None \<and>
       readable_date L (doc_get d ''expiration_date'') \<and> has_fields d"
  then have "\<forall>d\<in>set (find_sorted (announcements_collection db)).
       readable_date L (doc_get d ''start_date'') \<and>
       doc_get d ''expiration_date'' \<noteq> None \<and>
       readable_date L (doc_get d ''expiration_date'') \<and> has_fields d"
    by (simp add: set_find_sorted)
  from active_loop_total [OF tzinfo_now this]
  show "\<exists>active. get_active_announcements L clock db = Inr active"
    by (simp add: get_active_announcements_def Let_def)
qed

text \<open>
  C2 (amended). If the store contains a record whose expiration date is absent, list-active
  fails: it never skips that record and returns the others. The failure is the
  \<open>MissingField\<close> error for \<open>expiration_date\<close> whenever every date text in the store parses and
  every record has its id and message; otherwise the error of a field read earlier can be
  raised instead.
\<close>

theorem missing_expiration_fails:
  assumes "d \<in> set (announcements_collection db)"
    and "doc_get d ''expiration_date'' = None"
  shows "(\<exists>e. get_active_announcements L clock db = Inl e) \<and>
         ((\<forall>x\<in>set (announcements_collection db).
             readable_date L (doc_get x ''start_date'') \<and>
             readable_date L (doc_get x ''expiration_date'') \<and>
             x ''_id'' \<noteq> None \<and> x ''message'' \<noteq> None) \<longrightarrow>
          get_active_announcements L clock db = Inl (MissingField ''expiration_date''))"
proof (intro conjI impI)
  have d: "d \<in> set (find_sorted (announcements_collection db))"
    using assms(1) by (simp add: set_find_sorted)
  from active_loop_missing_expiration [OF tzinfo_now d assms(2)]
  show "\<exists>e. get_active_announcements L clock db = Inl e"
    by (simp add: get_active_announcements_def Let_def)
  assume "\<forall>x\<in>set (announcements_collection db).
             readable_date L (doc_get x ''start_date'') \<and>
             readable_date L (doc_get x ''expiration_date'') \<and>
             x ''_id'' \<noteq> None \<and> x ''message'' \<noteq> None"
  then have "\<forall>x\<in>set (find_sorted (announcements_collection db)).
             readable_date L (doc_get x ''start_date'') \<and>
             readable_date L (doc_get x ''expiration_date'') \<and>
             x ''_id'' \<noteq> None \<and> x ''message'' \<noteq> None"
    by (simp add: set_find_sorted)
  moreover have "\<exists>d\<in>set (find_sorted (announcements_collection db)).
                   doc_get d ''expiration_date'' = None"
    using d assms(2) by blast
  ultimately show "get_active_announcements L clock db = Inl (MissingField ''expiration_date'')"
    using active_loop_missing_field [OF tzinfo_now]
    by (simp add: get_active_announcements_def Let_def)
qed

text \<open>
  C3. A create or update call that fails, with any error and so with each of the
  validation errors, returns the store it was given: nothing is inserted and no field is
  updated before every check has passed.
\<close>

theorem validation_failure_writes_nothing:
  "(\<forall>e. fst (create_announcement L uuid clock payload teacher_username db) = Inl e \<longrightarrow>
        snd (create_announcement L uuid clock payload teacher_username db) = db) \<and>
   (\<forall>e. fst (update_announcement L announcement_id payload teacher_username db) = Inl e \<longrightarrow>
        snd (update_announcement L announcement_id payload teacher_username db) = db)"
  using create_announcement_failure update_announcement_failure by blast

theorem validation_failure_writes_nothing_witness:
  "fst (create_announcement stdlib ''n1'' clock_2025 payload_equal_dates ''mrodriguez''
          school_db) = Inl InvalidRange \<and>
   snd (create_announcement stdlib ''n1'' clock_2025 payload_equal_dates ''mrodriguez''
          school_db) = school_db \<and>
   fst (update_announcement stdlib ''a1'' payload_blank ''mrodriguez'' school_db)
     = Inl EmptyMessage \<and>
   snd (update_announcement stdlib ''a1'' payload_blank ''mrodriguez'' school_db)
     = school_db"
proof -
  have c: "fst (create_announcement stdlib ''n1'' clock_2025 payload_equal_dates
                  ''mrodriguez'' school_db) = Inl InvalidRange"
    by (simp add: create_announcement_checked payloads_valid validate_teacher_simps
        teacher_known checked_equal_dates)
  have u: "fst (update_announcement stdlib ''a1'' payload_blank ''mrodriguez'' school_db)
             = Inl EmptyMessage"
    by (simp add: update_announcement_checked payloads_valid validate_teacher_simps
        teacher_known find_exam checked_blank)
  from c u
    validation_failure_writes_nothing
      [of stdlib "''n1''" clock_2025 payload_equal_dates "''mrodriguez''" school_db]
    validation_failure_writes_nothing
      [of stdlib _ _ payload_blank "''mrodriguez''" school_db "''a1''"]
  show ?thesis by simp
qed

text \<open>
  C4 (amended). For a create or update call by a known teacher with a payload that
  satisfies the schema and whose two dates are present and parse: if the start is at or
  after the expiration, create fails with \<open>InvalidRange\<close>, and so does update of an
  existing record, the store unchanged; if the start is strictly before the expiration,
  neither operation fails with \<open>InvalidRange\<close>.
\<close>

theorem cross_field_rule:
  assumes "AnnouncementUpsert_validate payload = Inr ()"
    and "teacher_username \<in> teachers_collection db"
    and "parse_iso_date L (start_date payload) ''start_date'' False = Inr (Some st)"
    and "parse_iso_date L (Some (expiration_date payload)) ''expiration_date'' True
           = Inr (Some ex)"
  shows "(utc_micros ex \<le> utc_micros st \<longrightarrow>
            create_announcement L uuid clock payload teacher_username db
              = (Inl InvalidRange, db) \<and>
            (find_one announcement_id (announcements_collection db) \<noteq> None \<longrightarrow>
               update_announcement L announcement_id payload teacher_username db
                 = (Inl InvalidRange, db))) \<and>
         (utc_micros st < utc_micros ex \<longrightarrow>
            fst (create_announcement L uuid clock payload teacher_username db)
              \<noteq> Inl InvalidRange \<and>
            fst (update_announcement L announcement_id payload teacher_username db)
              \<noteq> Inl InvalidRange)"
proof (intro conjI impI)
  assume le: "utc_micros ex \<le> utc_micros st"
  have c: "checked_payload L payload = Inl InvalidRange"
    using checked_payload_range(1) [OF assms(3,4) le] .
  show "create_announcement L uuid clock payload teacher_username db = (Inl InvalidRange, db)"
    using assms(1,2) c by (simp add: create_announcement_checked validate_teacher_simps)
  show "update_announcement L announcement_id payload teacher_username db
          = (Inl InvalidRange, db)"
    if "find_one announcement_id (announcements_collection db) \<noteq> None"
    using assms(1,2) c that
    by (auto simp: update_announcement_checked validate_teacher_simps)
next
  assume lt: "utc_micros st < utc_micros ex"
  have c: "checked_payload L payload \<noteq> Inl InvalidRange"
    using checked_payload_range(2) [OF assms(3,4) lt] .
  have nf: "InvalidRange \<noteq> HTTPException 404 ''Announcement not found''"
    by (simp add: InvalidRange_def)
  show "fst (create_announcement L uuid clock payload teacher_username db) \<noteq> Inl InvalidRange"
  proof (cases "checked_payload L payload")
    case (Inl e)
    with c assms(1,2) show ?thesis
      by (auto simp: create_announcement_checked validate_teacher_simps)
  next
    case (Inr flds)
    from create_announcement_success_path [OF Inr, of uuid "isoformat L (datetime_now clock)"]
      Inr assms(1,2)
    show ?thesis
      by (auto simp: create_announcement_checked validate_teacher_simps Let_def)
  qed
  show "fst (update_announcement L announcement_id payload teacher_username db)
          \<noteq> Inl InvalidRange"
  proof (cases "find_one announcement_id (announcements_collection db)")
    case None
    then show ?thesis
      using assms(1,2) nf by (simp add: update_announcement_checked validate_teacher_simps)
  next
    case (Some existing)
    show ?thesis
    proof (cases "checked_payload L payload")
      case (Inl e)
      with c Some assms(1,2) show ?thesis
        by (auto simp: update_announcement_checked validate_teacher_simps)
    next
      case (Inr upd)
      from update_announcement_success_path [OF Some Inr] Some Inr assms(1,2) show ?thesis
        by (auto simp: update_announcement_checked validate_teacher_simps)
    qed
  qed
qed

theorem cross_field_rule_counterexample:
  "parse_iso_date stdlib (start_date payload_equal_dates) ''start_date'' False
     = Inr (Some date_2030) \<and>
   parse_iso_date stdlib (Some (expiration_date payload_equal_dates)) ''expiration_date'' True
     = Inr (Some date_2030) \<and>
   fst (create_announcement stdlib ''n1'' clock_2025 payload_equal_dates ''visitor''
          school_db) = Inl Unauthorized \<and>
   fst (update_announcement stdlib ''zz'' payload_equal_dates ''mrodriguez'' school_db)
     = Inl NotFound \<and>
   Unauthorized \<noteq> InvalidRange \<and> NotFound \<noteq> InvalidRange"
  by (simp add: parse_start_examples parse_expiration_examples
      create_announcement_checked update_announcement_checked payloads_valid
      validate_teacher_simps teacher_known find_missing NotFound_def Unauthorized_def
      InvalidRange_def)

theorem cross_field_rule_witness:
  "create_announcement stdlib ''n1'' clock_2025 payload_equal_dates ''mrodriguez'' school_db
     = (Inl InvalidRange, school_db) \<and>
   update_announcement stdlib ''a1'' payload_equal_dates ''mrodriguez'' school_db
     = (Inl InvalidRange, school_db) \<and>
   fst (create_announcement stdlib ''n1'' clock_2025 payload_window ''mrodriguez'' school_db)
     \<noteq> Inl InvalidRange \<and>
   fst (update_announcement stdlib ''a1'' payload_window ''mrodriguez'' school_db)
     \<noteq> Inl InvalidRange"
  using
    cross_field_rule [where payload = payload_equal_dates and L = stdlib
      and teacher_username = "''mrodriguez''" and db = school_db and st = date_2030
      and ex = date_2030 and uuid = "''n1''" and clock = clock_2025
      and announcement_id = "''a1''"]
    cross_field_rule [where payload = payload_window and L = stdlib
      and teacher_username = "''mrodriguez''" and db = school_db and st = date_2030
      and ex = date_2031 and uuid = "''n1''" and clock = clock_2025
      and announcement_id = "''a1''"]
    utc_2030_2031
  by (simp add: payloads_valid teacher_known parse_start_examples parse_expiration_examples
      find_exam)

text \<open>
  C6 (amended). For a create or update call by a known teacher with a payload that
  satisfies the schema (a message of 1 to 500 characters), whose dates parse and satisfy
  the cross-field rule, and whose message consists only of whitespace: create fails with
  \<open>EmptyMessage\<close>, and so does update of an existing record, the store unchanged.
\<close>

theorem blank_message_rejected:
  assumes "AnnouncementUpsert_validate payload = Inr ()"
    and "teacher_username \<in> teachers_collection db"
    and "parse_iso_date L (start_date payload) ''start_date'' False = Inr start"
    and "parse_iso_date L (Some (expiration_date payload)) ''expiration_date'' True
           = Inr (Some ex)"
    and "\<forall>st. start = Some st \<longrightarrow> utc_micros st < utc_micros ex"
    and "\<forall>c\<in>set (message payload). isspace c"
  shows "create_announcement L uuid clock payload teacher_username db
           = (Inl EmptyMessage, db) \<and>
         (find_one announcement_id (announcements_collection db) \<noteq> None \<longrightarrow>
            update_announcement L announcement_id payload teacher_username db
              = (Inl EmptyMessage, db))"
proof -
  have c: "checked_payload L payload = Inl EmptyMessage"
    using assms(3-6) by (rule checked_payload_blank)
  show ?thesis
    using assms(1,2) c
    by (auto simp: create_announcement_checked update_announcement_checked
        validate_teacher_simps)
qed

theorem blank_message_rejected_counterexample:
  "strip (message payload_blank_equal_dates) = [] \<and>
   fst (create_announcement stdlib ''n1'' clock_2025 payload_blank_equal_dates ''mrodriguez''
          school_db) = Inl InvalidRange \<and>
   fst (update_announcement stdlib ''a1'' payload_blank_equal_dates ''mrodriguez'' school_db)
     = Inl InvalidRange \<and>
   InvalidRange \<noteq> EmptyMessage \<and>
   message payload_empty = [] \<and>
   fst (create_announcement stdlib ''n1'' clock_2025 payload_empty ''mrodriguez'' school_db)
     = Inl RequestValidationError \<and>
   fst (update_announcement stdlib ''a1'' payload_empty ''mrodriguez'' school_db)
     = Inl RequestValidationError \<and>
   RequestValidationError \<noteq> EmptyMessage"
proof -
  have "strip (message payload_blank_equal_dates) = []"
    by (simp add: payload_blank_equal_dates_def strip_blank)
  moreover have "message payload_empty = []"
    by (simp add: payload_empty_def)
  ultimately show ?thesis
    by (simp add: create_announcement_checked update_announcement_checked
        payload_empty_invalid validate_teacher_simps teacher_known find_exam
        checked_blank_equal_dates error_kinds_differ)
qed

theorem blank_message_rejected_witness:
  "create_announcement stdlib ''n1'' clock_2025 payload_blank ''mrodriguez'' school_db
     = (Inl EmptyMessage, school_db) \<and>
   update_announcement stdlib ''a1'' payload_blank ''mrodriguez'' school_db
     = (Inl EmptyMessage, school_db)"
proof -
  have sp: "\<forall>c\<in>set (message payload_blank). isspace c"
    by (simp add: payload_blank_def isspace_def)
  from blank_message_rejected [where payload = payload_blank and L = stdlib
      and teacher_username = "''mrodriguez''" and db = school_db and start = None
      and ex = date_2030 and uuid = "''n1''" and clock = clock_2025
      and announcement_id = "''a1''", OF payloads_valid(3) teacher_known(1)
      parse_start_examples(4) parse_expiration_examples(4) _ sp]
  show ?thesis by (simp add: find_exam)
qed

text \<open>
  C7. After a successful update the credential store is the same and the collection
  differs in one place only, the first record with the given id: there every field other
  than \<open>message\<close>, \<open>start_date\<close> and \<open>expiration_date\<close> is unchanged, in particular
  \<open>_id\<close> and \<open>created_at\<close>; the message is the trimmed message of the payload, and the
  response is the serialization of the updated record.
\<close>

theorem update_replaces_three_fields:
  assumes "update_announcement L announcement_id payload teacher_username db = (Inr r, db')"
  shows "teachers_collection db' = teachers_collection db \<and>
         (\<exists>pre d d' post.
            announcements_collection db = pre @ d # post \<and>
            announcements_collection db' = pre @ d' # post \<and>
            has_id announcement_id d \<and> (\<forall>x\<in>set pre. \<not> has_id announcement_id x) \<and>
            d' ''_id'' = d ''_id'' \<and> d' ''created_at'' = d ''created_at'' \<and>
            (\<forall>k. k \<notin> {''message'', ''start_date'', ''expiration_date''} \<longrightarrow> d' k = d k) \<and>
            d' ''message'' = Some (Some (strip (message payload))) \<and>
            serialize d' = Inr r)"
proof -
  from assms obtain existing upd where
    f: "find_one announcement_id (announcements_collection db) = Some existing" and
    c: "checked_payload L payload = Inr upd"
    by (auto simp: update_announcement_checked split: sum.splits option.splits)
  note sp = update_announcement_success_path [OF f c]
  from assms f c sp have
    db': "db' = db\<lparr>announcements_collection :=
                     update_one announcement_id upd (announcements_collection db)\<rparr>" and
    r: "serialize (existing ++ upd) = Inr r"
    by (auto simp: update_announcement_checked split: sum.splits)
  from f obtain pre post where
    s: "announcements_collection db = pre @ existing # post" "has_id announcement_id existing"
       "\<forall>x\<in>set pre. \<not> has_id announcement_id x"
    by (auto simp: find_one_split)
  have u: "announcements_collection db' = pre @ (existing ++ upd) # post"
    using s db' by (simp add: update_one_split)
  have frame: "\<forall>k. k \<notin> {''message'', ''start_date'', ''expiration_date''} \<longrightarrow>
                 (existing ++ upd) k = existing k"
    using checked_payload_fields(6) [OF c] by (auto simp: map_add_def split: option.splits)
  have m: "(existing ++ upd) ''message'' = Some (Some (strip (message payload)))"
    using checked_payload_fields(3) [OF c] by (simp add: map_add_def)
  from frame have "(existing ++ upd) ''_id'' = existing ''_id''"
    "(existing ++ upd) ''created_at'' = existing ''created_at''" by simp_all
  then have "announcements_collection db = pre @ existing # post \<and>
            announcements_collection db' = pre @ (existing ++ upd) # post \<and>
            has_id announcement_id existing \<and> (\<forall>x\<in>set pre. \<not> has_id announcement_id x) \<and>
            (existing ++ upd) ''_id'' = existing ''_id'' \<and>
            (existing ++ upd) ''created_at'' = existing ''created_at'' \<and>
            (\<forall>k. k \<notin> {''message'', ''start_date'', ''expiration_date''} \<longrightarrow>
                 (existing ++ upd) k = existing k) \<and>
            (existing ++ upd) ''message'' = Some (Some (strip (message payload))) \<and>
            serialize (existing ++ upd) = Inr r"
    using s u frame m r by blast
  then have "\<exists>pre d d' post.
            announcements_collection db = pre @ d # post \<and>
            announcements_collection db' = pre @ d' # post \<and>
            has_id announcement_id d \<and> (\<forall>x\<in>set pre. \<not> has_id announcement_id x) \<and>
            d' ''_id'' = d ''_id'' \<and> d' ''created_at'' = d ''created_at'' \<and>
            (\<forall>k. k \<notin> {''message'', ''start_date'', ''expiration_date''} \<longrightarrow> d' k = d k) \<and>
            d' ''message'' = Some (Some (strip (message payload))) \<and>
            serialize d' = Inr r"
    by (intro exI)
  moreover have "teachers_collection db' = teachers_collection db"
    using db' by simp
  ultimately show ?thesis by (rule conjI [rotated])
qed

theorem update_replaces_three_fields_witness:
  "fst (update_announcement stdlib ''a1'' payload_moved ''mrodriguez'' school_db)
     = Inr response_moved \<and>
   teachers_collection
     (snd (update_announcement stdlib ''a1'' payload_moved ''mrodriguez'' school_db))
     = teachers_collection school_db \<and>
   (\<exists>pre d d' post.
      announcements_collection school_db = pre @ d # post \<and>
      announcements_collection
        (snd (update_announcement stdlib ''a1'' payload_moved ''mrodriguez'' school_db))
        = pre @ d' # post \<and>
      has_id ''a1'' d \<and> d' ''_id'' = d ''_id'' \<and> d' ''created_at'' = d ''created_at'' \<and>
      d' ''message'' = Some (Some ''Moved'') \<and> serialize d' = Inr response_moved)"
proof -
  let ?X = "update_announcement stdlib ''a1'' payload_moved ''mrodriguez'' school_db"
  have "?X = (Inr response_moved, snd ?X)"
    using update_moved by (simp add: prod_eq_iff)
  note T = update_replaces_three_fields [OF this]
  from T [THEN conjunct2] obtain pre d d' post where
    s: "announcements_collection school_db = pre @ d # post \<and>
        announcements_collection (snd ?X) = pre @ d' # post \<and>
        has_id ''a1'' d \<and> (\<forall>x\<in>set pre. \<not> has_id ''a1'' x) \<and>
        d' ''_id'' = d ''_id'' \<and> d' ''created_at'' = d ''created_at'' \<and>
        (\<forall>k. k \<notin> {''message'', ''start_date'', ''expiration_date''} \<longrightarrow> d' k = d k) \<and>
        d' ''message'' = Some (Some (strip (message payload_moved))) \<and>
        serialize d' = Inr response_moved"
    by (elim exE)
  have m: "strip (message payload_moved) = ''Moved''"
    by (simp add: payload_moved_def strip_moved)
  have "announcements_collection school_db = pre @ d # post \<and>
        announcements_collection (snd ?X) = pre @ d' # post \<and>
        has_id ''a1'' d \<and> d' ''_id'' = d ''_id'' \<and> d' ''created_at'' = d ''created_at'' \<and>
        d' ''message'' = Some (Some ''Moved'') \<and> serialize d' = Inr response_moved"
    using s unfolding m by (elim conjE) (intro conjI)
  then have "\<exists>pre d d' post.
        announcements_collection school_db = pre @ d # post \<and>
        announcements_collection (snd ?X) = pre @ d' # post \<and>
        has_id ''a1'' d \<and> d' ''_id'' = d ''_id'' \<and> d' ''created_at'' = d ''created_at'' \<and>
        d' ''message'' = Some (Some ''Moved'') \<and> serialize d' = Inr response_moved"
    by (intro exI)
  with update_moved T [THEN conjunct1] show ?thesis by (intro conjI)
qed

text \<open>
  C8. After a successful create, in a store whose records have the fields that are
  serialized, list-all with a known teacher returns a sequence that contains the create
  response, and that is the listing before the create with exactly this one record added:
  message, start date and expiration date of the listed record are those of the response.
\<close>

theorem create_then_list_all:
  assumes "create_announcement L uuid clock payload t db = (Inr r, db')"
    and "t' \<in> teachers_collection db'"
    and "\<forall>d\<in>set (announcements_collection db). has_fields d"
  shows "\<exists>rs rs0. get_all_announcements t' db' = Inr rs \<and> r \<in> set rs \<and>
           get_all_announcements t' db = Inr rs0 \<and> mset rs = add_mset r (mset rs0)"
proof -
  from create_announcement_success [OF assms(1)] obtain d where
    d: "serialize d = Inr r" and
    db': "db' = db\<lparr>announcements_collection := announcements_collection db @ [d]\<rparr>"
    by blast
  have t': "t' \<in> teachers_collection db" using assms(2) db' by simp
  have "has_fields d" using d serialize_Inr_iff [of d] by auto
  with assms(3) have all: "\<forall>x\<in>set (find_sorted (announcements_collection db')). has_fields x"
    by (auto simp: set_find_sorted db')
  from assms(3) have all0: "\<forall>x\<in>set (find_sorted (announcements_collection db)). has_fields x"
    by (simp add: set_find_sorted)
  from serialize_all_total [OF all] obtain rs where
    rs: "map serialize (find_sorted (announcements_collection db')) = map Inr rs"
    by (auto simp: serialize_all_map)
  from serialize_all_total [OF all0] obtain rs0 where
    rs0: "map serialize (find_sorted (announcements_collection db)) = map Inr rs0"
    by (auto simp: serialize_all_map)
  have "map projr (map serialize (find_sorted (announcements_collection db')))
          = map projr (map Inr rs :: (error + response) list)"
    by (simp only: rs)
  then have 1: "rs = map (\<lambda>x. projr (serialize x)) (find_sorted (announcements_collection db'))"
    by (simp add: comp_def)
  have "map projr (map serialize (find_sorted (announcements_collection db)))
          = map projr (map Inr rs0 :: (error + response) list)"
    by (simp only: rs0)
  then have 2: "rs0 = map (\<lambda>x. projr (serialize x)) (find_sorted (announcements_collection db))"
    by (simp add: comp_def)
  have "mset rs = image_mset (\<lambda>x. projr (serialize x)) (mset (announcements_collection db'))"
    unfolding 1 by (simp add: mset_find_sorted)
  also have "\<dots> = add_mset (projr (serialize d))
                      (image_mset (\<lambda>x. projr (serialize x)) (mset (announcements_collection db)))"
    by (simp add: db')
  also have "\<dots> = add_mset r (mset rs0)"
    unfolding 2 by (simp add: mset_find_sorted d)
  finally have m: "mset rs = add_mset r (mset rs0)" .
  then have "r \<in> set rs"
    by (metis set_mset_mset union_single_eq_member)
  with rs rs0 m t' assms(2) show ?thesis
    by (auto simp: get_all_announcements_map)
qed

text \<open>
  C9. Delete by an unknown teacher fails with \<open>Unauthorized\<close> and leaves the store as it
  was. By a known teacher it fails with \<open>NotFound\<close> exactly when no record has the given
  id, in whatever state the store is, and then leaves the store as it was; otherwise it
  removes the first record with that id and returns the confirmation.
\<close>

theorem delete_announcement_contract:
  "(teacher_username \<notin> teachers_collection db \<longrightarrow>
      delete_announcement announcement_id teacher_username db = (Inl Unauthorized, db)) \<and>
   (teacher_username \<in> teachers_collection db \<longrightarrow>
      (fst (delete_announcement announcement_id teacher_username db) = Inl NotFound
         \<longleftrightarrow> (\<forall>d\<in>set (announcements_collection db). \<not> has_id announcement_id d)) \<and>
      ((\<forall>d\<in>set (announcements_collection db). \<not> has_id announcement_id d) \<longrightarrow>
         delete_announcement announcement_id teacher_username db = (Inl NotFound, db)) \<and>
      (\<forall>pre d post.
         announcements_collection db = pre @ d # post \<and> has_id announcement_id d \<and>
         (\<forall>x\<in>set pre. \<not> has_id announcement_id x) \<longrightarrow>
         delete_announcement announcement_id teacher_username db
           = (Inr [(''message'', Some ''Announcement deleted'')],
              db\<lparr>announcements_collection := pre @ post\<rparr>)))"
proof (intro conjI impI allI)
  assume "teacher_username \<notin> teachers_collection db"
  then show "delete_announcement announcement_id teacher_username db = (Inl Unauthorized, db)"
    by (simp add: delete_announcement_def validate_teacher_simps)
next
  assume t: "teacher_username \<in> teachers_collection db"
  show "fst (delete_announcement announcement_id teacher_username db) = Inl NotFound
         \<longleftrightarrow> (\<forall>d\<in>set (announcements_collection db). \<not> has_id announcement_id d)"
    using t delete_one_count [of announcement_id "announcements_collection db"]
    by (auto simp: delete_announcement_def validate_teacher_simps NotFound_def Let_def
        split: prod.splits)
  show "delete_announcement announcement_id teacher_username db = (Inl NotFound, db)"
    if "\<forall>d\<in>set (announcements_collection db). \<not> has_id announcement_id d"
    using t that
    by (simp add: delete_announcement_def validate_teacher_simps NotFound_def delete_one_miss)
  show "delete_announcement announcement_id teacher_username db
           = (Inr [(''message'', Some ''Announcement deleted'')],
              db\<lparr>announcements_collection := pre @ post\<rparr>)"
    if "announcements_collection db = pre @ d # post \<and> has_id announcement_id d \<and>
         (\<forall>x\<in>set pre. \<not> has_id announcement_id x)" for pre d post
    using t that
    by (simp add: delete_announcement_def validate_teacher_simps delete_one_split)
qed

theorem delete_announcement_contract_witness:
  "delete_announcement ''a1'' ''visitor'' school_db = (Inl Unauthorized, school_db) \<and>
   delete_announcement ''zz'' ''mrodriguez'' school_db = (Inl NotFound, school_db) \<and>
   delete_announcement ''a1'' ''mrodriguez'' school_db
     = (Inr [(''message'', Some ''Announcement deleted'')],
        school_db\<lparr>announcements_collection := [doc_past]\<rparr>)"
proof -
  have a: "delete_announcement ''a1'' ''visitor'' school_db = (Inl Unauthorized, school_db)"
    using delete_announcement_contract [of "''visitor''" school_db "''a1''"]
    by (simp add: teacher_known)
  have b: "delete_announcement ''zz'' ''mrodriguez'' school_db = (Inl NotFound, school_db)"
    using delete_announcement_contract [of "''mrodriguez''" school_db "''zz''"] school_records
    by (simp add: teacher_known)
  from delete_announcement_contract [of "''mrodriguez''" school_db "''a1''"] teacher_known(1)
  have "announcements_collection school_db = [doc_past] @ doc_exam # [] \<and>
          has_id ''a1'' doc_exam \<and> (\<forall>x\<in>set [doc_past]. \<not> has_id ''a1'' x) \<longrightarrow>
        delete_announcement ''a1'' ''mrodriguez'' school_db
          = (Inr [(''message'', Some ''Announcement deleted'')],
             school_db\<lparr>announcements_collection := [doc_past] @ []\<rparr>)"
    by blast
  with school_records have
    "delete_announcement ''a1'' ''mrodriguez'' school_db
       = (Inr [(''message'', Some ''Announcement deleted'')],
          school_db\<lparr>announcements_collection := [doc_past]\<rparr>)"
    by simp
  with a b show ?thesis by simp
qed

text \<open>
  C10. When the record to update exists, the lookup after the field update finds a record,
  the updated one, and the update never fails with the \<open>TypeError\<close> of a subscript on
  \<open>None\<close>.
\<close>

theorem update_refetch_finds_record:
  assumes "find_one announcement_id (announcements_collection db) = Some existing"
  shows "(\<forall>updates. checked_payload L payload = Inr updates \<longrightarrow>
            find_one announcement_id
              (update_one announcement_id updates (announcements_collection db))
              = Some (existing ++ updates)) \<and>
         fst (update_announcement L announcement_id payload teacher_username db)
           \<noteq> Inl TypeError"
proof (intro conjI allI impI)
  fix updates assume "checked_payload L payload = Inr updates"
  from update_announcement_success_path(1) [OF assms this]
  show "find_one announcement_id
          (update_one announcement_id updates (announcements_collection db))
          = Some (existing ++ updates)" .
next
  have nt: "checked_payload L payload \<noteq> Inl TypeError"
    by (rule checked_payload_no_TypeError)
  show "fst (update_announcement L announcement_id payload teacher_username db) \<noteq> Inl TypeError"
  proof (cases "checked_payload L payload")
    case (Inl e)
    with nt assms show ?thesis
      by (auto simp: update_announcement_checked validate_teacher_def
          AnnouncementUpsert_validate_def split: sum.splits)
  next
    case (Inr upd)
    from update_announcement_success_path [OF assms Inr] assms Inr show ?thesis
      by (auto simp: update_announcement_checked validate_teacher_def
          AnnouncementUpsert_validate_def split: sum.splits)
  qed
qed

theorem update_refetch_finds_record_witness:
  "find_one ''a1'' (announcements_collection school_db) = Some doc_exam \<and>
   find_one ''a1''
     (update_one ''a1''
        [''message'' \<mapsto> Some ''Moved'', ''start_date'' \<mapsto> None,
         ''expiration_date'' \<mapsto> Some ''2030-01-01T00:00:00+00:00'']
        (announcements_collection school_db))
     = Some (doc_exam ++ [''message'' \<mapsto> Some ''Moved'', ''start_date'' \<mapsto> None,
                         ''expiration_date'' \<mapsto> Some ''2030-01-01T00:00:00+00:00'']) \<and>
   fst (update_announcement stdlib ''a1'' payload_moved ''mrodriguez'' school_db)
     \<noteq> Inl TypeError"
  using update_refetch_finds_record [OF find_exam, of stdlib payload_moved "''mrodriguez''"]
    find_exam checked_moved
  by simp

end
